theory Spec2Isabelle
  imports Complex_Main "HOL-Library.Sublist" "HOL-Library.Multiset"
begin

section \<open>JavaScript values used by the services\<close>

text \<open>
  The services are TypeScript. Strings are modelled as \<open>string\<close> (ASCII), integers and
  millisecond timestamps as \<open>int\<close>. The numbers of the pricing engine and of the read API
  (prices, supplies, balances) are modelled as rationals, \<open>num\<close>: their arithmetic is exact
  in the model. The pair score is arithmetic on JavaScript numbers throughout and is
  modelled on IEEE 754 binary64 values, \<open>double\<close>, with round-to-nearest-even.
\<close>

type_synonym num = rat

text \<open>\<^verbatim>\<open>x || 0\<close> on an optional number: \<open>undefined\<close> and \<open>0\<close> both give \<open>0\<close>.\<close>

fun or0 :: "num option \<Rightarrow> num" where
  "or0 None = 0"
| "or0 (Some x) = x"

text \<open>\<^verbatim>\<open>String.prototype.includes\<close>: \<open>t\<close> occurs in \<open>s\<close> as a contiguous substring.\<close>

fun str_includes :: "string \<Rightarrow> string \<Rightarrow> bool" where
  "str_includes [] t = (t = [])"
| "str_includes (c # s) t = (prefix t (c # s) \<or> str_includes s t)"

text \<open>\<^verbatim>\<open>String.prototype.toLowerCase\<close> on ASCII letters.\<close>

definition lowerChar :: "char \<Rightarrow> char" where
  "lowerChar c =
     (case map_of (zip ''ABCDEFGHIJKLMNOPQRSTUVWXYZ'' ''abcdefghijklmnopqrstuvwxyz'') c of
        None \<Rightarrow> c
      | Some d \<Rightarrow> d)"

definition toLowerCase :: "string \<Rightarrow> string" where
  "toLowerCase s = map lowerChar s"

section \<open>JavaScript numbers as IEEE 754 doubles\<close>

text \<open>
  A JavaScript number is a binary64 value. \<open>Fin m e\<close> is the finite value \<open>m \<cdot> 2\<^sup>e\<close>; the
  operations below return it with \<open>m\<close> odd (or \<open>Fin 0 0\<close>), so that equal values are equal
  terms. The two zeros are not told apart: they compare equal, \<^verbatim>\<open>x || 0\<close> replaces both, and
  the score never divides by one.
\<close>

datatype double = Fin int int | PosInf | NegInf | NaN

text \<open>The number of binary digits of a natural number.\<close>

fun bitLength :: "nat \<Rightarrow> nat" where
  "bitLength n = (if n = 0 then 0 else Suc (bitLength (n div 2)))"

declare bitLength.simps [simp del]

function normalise :: "int \<Rightarrow> int \<Rightarrow> double" where
  "normalise m e =
     (if m = 0 then Fin 0 0
      else if even m then normalise (m div 2) (e + 1)
      else Fin m e)"
  by pat_completeness auto
termination
  by (relation "measure (\<lambda>(m, e). nat \<bar>m\<bar>)") auto

declare normalise.simps [simp del]

text \<open>A value of magnitude \<open>2\<^sup>1\<^sup>0\<^sup>2\<^sup>4\<close> or more overflows to an infinity.\<close>

definition finish :: "int \<Rightarrow> int \<Rightarrow> double" where
  "finish m e =
     (if int (bitLength (nat \<bar>m\<bar>)) + e > 1024 then (if m > 0 then PosInf else NegInf)
      else normalise m e)"

text \<open>
  The double nearest to the exact value \<open>m \<cdot> 2\<^sup>e\<close>, ties to the even significand: the
  significand keeps 53 bits, and no bit below \<open>2\<^sup>-\<^sup>1\<^sup>0\<^sup>7\<^sup>4\<close> (subnormal numbers).
\<close>

definition roundNearestEven :: "int \<Rightarrow> int \<Rightarrow> double" where
  "roundNearestEven m e =
     (let a = nat \<bar>m\<bar>;
          E = max (e + int (bitLength a) - 53) (- 1074)
      in if E \<le> e then finish m e
         else let s = nat (E - e);
                  q = a div 2 ^ s;
                  r = a mod 2 ^ s;
                  half = 2 ^ (s - 1);
                  mant = (if r > half \<or> (r = half \<and> odd q) then q + 1 else q)
              in finish (sgn m * int mant) E)"

definition ofInt :: "int \<Rightarrow> double" where
  "ofInt n = roundNearestEven n 0"

fun fadd :: "double \<Rightarrow> double \<Rightarrow> double" where
  "fadd (Fin m1 e1) (Fin m2 e2) =
     roundNearestEven (m1 * 2 ^ nat (e1 - min e1 e2) + m2 * 2 ^ nat (e2 - min e1 e2))
       (min e1 e2)"
| "fadd NaN b = NaN"
| "fadd a NaN = NaN"
| "fadd PosInf NegInf = NaN"
| "fadd NegInf PosInf = NaN"
| "fadd PosInf b = PosInf"
| "fadd NegInf b = NegInf"
| "fadd a PosInf = PosInf"
| "fadd a NegInf = NegInf"

fun fneg :: "double \<Rightarrow> double" where
  "fneg (Fin m e) = Fin (- m) e"
| "fneg PosInf = NegInf"
| "fneg NegInf = PosInf"
| "fneg NaN = NaN"

text \<open>The sign of a double that is not \<open>NaN\<close>: \<open>-1\<close>, \<open>0\<close> or \<open>1\<close>.\<close>

fun signOf :: "double \<Rightarrow> int" where
  "signOf (Fin m e) = sgn m"
| "signOf PosInf = 1"
| "signOf NegInf = - 1"
| "signOf NaN = 0"

definition infOf :: "int \<Rightarrow> double" where
  "infOf s = (if s = 0 then NaN else if s > 0 then PosInf else NegInf)"

fun fmul :: "double \<Rightarrow> double \<Rightarrow> double" where
  "fmul (Fin m1 e1) (Fin m2 e2) = roundNearestEven (m1 * m2) (e1 + e2)"
| "fmul NaN b = NaN"
| "fmul a NaN = NaN"
| "fmul a b = infOf (signOf a * signOf b)"

text \<open>
  The quotient of two finite non-zero doubles. The dividend is shifted left until the
  integer quotient has at least 55 bits; one more bit records whether the division left
  a remainder. That is enough to round the exact quotient correctly.
\<close>

definition divShift :: "nat \<Rightarrow> nat \<Rightarrow> nat" where
  "divShift a b = nat (int (bitLength b) + 55 - int (bitLength a))"

definition stickyQuotient :: "nat \<Rightarrow> nat \<Rightarrow> nat" where
  "stickyQuotient a b = 2 * (a div b) + (if a mod b = 0 then 0 else 1)"

definition divideFinite :: "int \<Rightarrow> int \<Rightarrow> int \<Rightarrow> int \<Rightarrow> double" where
  "divideFinite m1 e1 m2 e2 =
     roundNearestEven
       (sgn m1 * sgn m2 *
          int (stickyQuotient (nat \<bar>m1\<bar> * 2 ^ divShift (nat \<bar>m1\<bar>) (nat \<bar>m2\<bar>)) (nat \<bar>m2\<bar>)))
       (e1 - e2 - int (divShift (nat \<bar>m1\<bar>) (nat \<bar>m2\<bar>)) - 1)"

text \<open>A zero divisor counts as \<open>+0\<close>.\<close>

fun fdiv :: "double \<Rightarrow> double \<Rightarrow> double" where
  "fdiv (Fin m1 e1) (Fin m2 e2) =
     (if m2 = 0 then infOf (sgn m1)
      else if m1 = 0 then Fin 0 0
      else divideFinite m1 e1 m2 e2)"
| "fdiv NaN b = NaN"
| "fdiv a NaN = NaN"
| "fdiv (Fin m e) b = Fin 0 0"
| "fdiv a (Fin m e) = infOf (signOf a * (if m < 0 then - 1 else 1))"
| "fdiv a b = NaN"

text \<open>\<^verbatim>\<open>a > b\<close>: false when either is \<open>NaN\<close>.\<close>

fun fgt :: "double \<Rightarrow> double \<Rightarrow> bool" where
  "fgt (Fin m1 e1) (Fin m2 e2) =
     (m1 * 2 ^ nat (e1 - min e1 e2) > m2 * 2 ^ nat (e2 - min e1 e2))"
| "fgt NaN b = False"
| "fgt a NaN = False"
| "fgt PosInf b = (b \<noteq> PosInf)"
| "fgt a NegInf = (a \<noteq> NegInf)"
| "fgt a b = False"

text \<open>\<^verbatim>\<open>x || 0\<close> on an optional number: \<open>undefined\<close>, \<open>0\<close> and \<open>NaN\<close> give \<open>0\<close>.\<close>

fun orZero :: "double option \<Rightarrow> double" where
  "orZero None = Fin 0 0"
| "orZero (Some NaN) = Fin 0 0"
| "orZero (Some x) = x"

text \<open>The literals \<^verbatim>\<open>0.3\<close>, \<^verbatim>\<open>0.4\<close> and \<^verbatim>\<open>0.1\<close>: the doubles nearest to them.\<close>

definition lit03 :: double where
  "lit03 = Fin 5404319552844595 (- 54)"

definition lit04 :: double where
  "lit04 = Fin 3602879701896397 (- 53)"

definition lit01 :: double where
  "lit01 = Fin 3602879701896397 (- 55)"

text \<open>The rational value of a finite double.\<close>

definition finValue :: "int \<Rightarrow> int \<Rightarrow> rat" where
  "finValue m e = (if e \<ge> 0 then of_int m * 2 ^ nat e else of_int m / 2 ^ nat (- e))"

section \<open>Aggregator pairs and their score (dexScreenerService.ts)\<close>

text \<open>
  The fields of \<^verbatim>\<open>DexScreenerPair\<close> read by the scoring function. The optional chains
  \<^verbatim>\<open>pair.liquidity?.usd\<close>, \<^verbatim>\<open>pair.volume?.['24h']\<close>, \<^verbatim>\<open>pair.txns?.['24h']?.buys\<close> and
  \<^verbatim>\<open>...?.sells\<close> are optional numbers.
\<close>

record DexScreenerPair =
  dexId :: string
  pairAddress :: string
  baseAddress :: string
  quoteAddress :: string
  liquidityUsd :: "double option"
  volume24h :: "double option"
  txnsBuys :: "double option"
  txnsSells :: "double option"

text \<open>\<^verbatim>\<open>establishedDexes.some(dex => pair.dexId.toLowerCase().includes(dex))\<close>\<close>

definition someIncludes :: "string list \<Rightarrow> string \<Rightarrow> bool" where
  "someIncludes dexes s = list_ex (\<lambda>dex. str_includes (toLowerCase s) dex) dexes"

definition scoreEstablishedDexes :: "string list" where
  "scoreEstablishedDexes = [''raydium'', ''orca'', ''jupiter'']"

definition scoreIsLaunchpad :: "DexScreenerPair \<Rightarrow> bool" where
  "scoreIsLaunchpad pair =
     (str_includes (toLowerCase (dexId pair)) ''pump'' \<or>
      str_includes (toLowerCase (dexId pair)) ''launch'' \<or>
      str_includes (pairAddress pair) ''pump'')"

text \<open>
  \<^verbatim>\<open>calculatePairScore\<close>, operation by operation: every product, quotient and sum is
  rounded to a double, and the final sum is taken from left to right.
\<close>

definition calculatePairScore :: "DexScreenerPair \<Rightarrow> double" where
  "calculatePairScore pair =
     (let liquidityUsd = orZero (liquidityUsd pair);
          volume24h = orZero (volume24h pair);
          txnsBuys = orZero (txnsBuys pair);
          txnsSells = orZero (txnsSells pair);
          totalTxns = fadd txnsBuys txnsSells;
          liquidityScore = fmul liquidityUsd lit03;
          volumeScore = fmul volume24h lit04;
          txnScore = fmul (fmul totalTxns (ofInt 200)) lit03;
          dexBonus = (if someIncludes scoreEstablishedDexes (dexId pair)
                      then ofInt 50000 else ofInt 0);
          launchpadPenalty =
            (if scoreIsLaunchpad pair
             then (if fgt volume24h (ofInt 100000) then ofInt (- 10000) else ofInt (- 100000))
             else ofInt 0);
          volumeToLiquidityRatio =
            (if fgt liquidityUsd (ofInt 0) then fdiv volume24h liquidityUsd else ofInt 0);
          activityBonus = (if fgt volumeToLiquidityRatio lit01 then ofInt 15000 else ofInt 0);
          recentActivityBonus = (if fgt totalTxns (ofInt 50) then ofInt 5000 else ofInt 0)
      in fadd (fadd (fadd (fadd (fadd (fadd liquidityScore volumeScore) txnScore) dexBonus)
                 launchpadPenalty) activityBonus) recentActivityBonus)"

text \<open>\<open>n\<cdot>[c]\<close>: the number \<open>n\<close> when the condition holds, and 0 otherwise.\<close>

definition bonus :: "int \<Rightarrow> bool \<Rightarrow> double" where
  "bonus n c = (if c then ofInt n else ofInt 0)"

text \<open>
  The score as the specification words it, in the same arithmetic: the established venues
  are \<open>{raydium, orca, jupiter, meteora}\<close>, the penalty, a negative number, is subtracted,
  and the turnover test is \<open>volume/liquidity > 0.1\<close> with no condition on the liquidity.
  The venue and launch tests are the program's own substring tests.
\<close>

definition specEstablishedDexes :: "string list" where
  "specEstablishedDexes = [''raydium'', ''orca'', ''jupiter'', ''meteora'']"

definition specPenalty :: "DexScreenerPair \<Rightarrow> double" where
  "specPenalty pair =
     (if scoreIsLaunchpad pair \<and> fgt (orZero (volume24h pair)) (ofInt 100000)
        then ofInt (- 10000)
      else if scoreIsLaunchpad pair then ofInt (- 100000) else ofInt 0)"

definition specPairScore :: "DexScreenerPair \<Rightarrow> double" where
  "specPairScore pair =
     fadd (fadd (fadd (fadd (fadd (fadd
       (fmul lit03 (orZero (liquidityUsd pair)))
       (fmul lit04 (orZero (volume24h pair))))
       (fmul lit03 (fmul (ofInt 200) (fadd (orZero (txnsBuys pair)) (orZero (txnsSells pair))))))
       (bonus 50000 (someIncludes specEstablishedDexes (dexId pair))))
       (fneg (specPenalty pair)))
       (bonus 15000 (fgt (fdiv (orZero (volume24h pair)) (orZero (liquidityUsd pair))) lit01)))
       (bonus 5000 (fgt (fadd (orZero (txnsBuys pair)) (orZero (txnsSells pair))) (ofInt 50)))"

definition examplePair :: "string \<Rightarrow> string \<Rightarrow> DexScreenerPair" where
  "examplePair dex addr =
     \<lparr> dexId = dex, pairAddress = addr, baseAddress = ''Tok'', quoteAddress = ''Sol'',
       liquidityUsd = None, volume24h = None, txnsBuys = None, txnsSells = None \<rparr>"

section \<open>Errors, the cache store and the persistent store\<close>

text \<open>A thrown JavaScript \<^verbatim>\<open>Error\<close> with its message. A function that can throw returns
  \<open>error + 'a\<close> together with the world as the throw left it.\<close>

datatype error = Error (message: string)

text \<open>\<^verbatim>\<open>TokenValidationResult\<close> (tokenValidationService.ts).\<close>

record TokenValidationResult =
  isValid :: bool
  reason :: "string option"
  decimals :: "int option"
  supplyUi :: "num option"
  tvName :: "string option"
  tvSymbol :: "string option"

text \<open>\<^verbatim>\<open>HolderBalance\<close> and \<^verbatim>\<open>TokenInfo\<close> (metricService.ts).\<close>

record HolderBalance =
  address :: string
  balance :: num
  percentage :: num

record TokenInfo =
  tiName :: string
  tiSymbol :: string
  tiDecimals :: int
  tiTotalSupply :: num

text \<open>
  \<^verbatim>\<open>RugCheckRisk\<close> and \<^verbatim>\<open>RugCheckData\<close> (rugCheckService.ts). The level of a risk is one of
  the strings \<^verbatim>\<open>info\<close>, \<^verbatim>\<open>warn\<close>, \<^verbatim>\<open>danger\<close>; the report is external data, so the model
  keeps the string.
\<close>

record Risk =
  riskName :: string
  riskValue :: string
  riskDescription :: string
  riskScore :: num
  riskLevelTag :: string

record TransferFee =
  feePct :: num
  feeMaxAmount :: num
  feeAuthority :: string

record RugCheckData =
  rugMint :: "string option"
  score_normalised :: num
  risks :: "Risk list"
  rugged :: bool
  rugPrice :: "num option"
  rugTotalHolders :: "num option"
  rugTransferFee :: "TransferFee option"

text \<open>
  Redis values are strings; those the services store are \<^verbatim>\<open>JSON.stringify\<close> of a few
  shapes, which \<open>rvalue\<close> keeps apart. A key holds a value and, when written with
  \<^verbatim>\<open>setex\<close>, the instant (milliseconds) at which it expires. Redis itself is taken to be
  reachable: its commands do not throw.
\<close>

datatype rvalue =
    RStr string
  | RValidation TokenValidationResult
  | RPrice num int
  | RHolders "HolderBalance list"
  | RTokenInfo TokenInfo
  | RRugCheck RugCheckData int

type_synonym redis = "string \<Rightarrow> (rvalue \<times> int option) option"

definition redis_get :: "redis \<Rightarrow> int \<Rightarrow> string \<Rightarrow> rvalue option" where
  "redis_get r t k =
     (case r k of
        None \<Rightarrow> None
      | Some (v, None) \<Rightarrow> Some v
      | Some (v, Some e) \<Rightarrow> (if t < e then Some v else None))"

definition redis_setex :: "redis \<Rightarrow> int \<Rightarrow> string \<Rightarrow> int \<Rightarrow> rvalue \<Rightarrow> redis" where
  "redis_setex r t k ttl v = r(k \<mapsto> (v, Some (t + ttl * 1000)))"

definition redis_del :: "redis \<Rightarrow> string \<Rightarrow> redis" where
  "redis_del r k = r(k := None)"

text \<open>\<^verbatim>\<open>keys(prefix + '*')\<close> followed by \<^verbatim>\<open>del(...keys)\<close>.\<close>

definition redis_del_prefix :: "redis \<Rightarrow> string \<Rightarrow> redis" where
  "redis_del_prefix r p = (\<lambda>k. if prefix p k then None else r k)"

text \<open>The two tables of the Prisma schema.\<close>

record TokenPriceRow =
  tpPriceUsd :: num
  tpPriceInSol :: num
  tpMarketCap :: num
  tpTotalSupply :: num
  tpLastUpdated :: int

record PriceHistoryRow =
  phId :: nat
  phTokenMint :: string
  phPriceUsd :: num
  phPriceInSol :: num
  phMarketCap :: num
  phTimestamp :: int

text \<open>\<^verbatim>\<open>TokenPriceData\<close> (priceTrackingService.ts): the payload of a \<^verbatim>\<open>price_update\<close>.\<close>

record TokenPriceData =
  tokenMint :: string
  priceUsd :: num
  priceInSol :: num
  marketCap :: num
  totalSupply :: num
  timestamp :: int

text \<open>
  The BullMQ queue \<^verbatim>\<open>price-tracking\<close>: its repeatable jobs and its job instances. A
  repeatable job is identified by its name, its job id and its repeat options.
\<close>

record RepeatableJob =
  rjName :: string
  rjId :: string
  rjEvery :: int

datatype job_state = Waiting | Active | Delayed | Completed | Failed | Paused

record JobInst =
  jiId :: string
  jiTokenMint :: string
  jiState :: job_state

record world =
  now :: int
  redis :: redis
  tokenPriceTable :: "string \<Rightarrow> TokenPriceRow option"
  priceHistoryTable :: "PriceHistoryRow list"
  nextHistoryId :: nat
  repeatableJobs :: "RepeatableJob list"
  jobInsts :: "JobInst list"
  published :: "TokenPriceData list"
  pollingJobsTotal :: "(string \<times> string) list"

text \<open>
  What the outside answers during one operation: the chain RPC, the aggregator, the
  database and the queue. Each field is the outcome of one external call of the source;
  \<open>Inl\<close> is a thrown error (for the chain and the aggregator: a network failure).
\<close>

datatype tx_outcome = TxCommit | TxFailUpsert | TxFailCreate

text \<open>
  The body of a RugCheck report, \<^verbatim>\<open>response.data\<close>: any field may be missing. The answer
  of \<^verbatim>\<open>axios.get\<close>: a response with or without a body, an axios error with the status of
  its response if it has one, or another error.
\<close>

record RugReport =
  repMint :: "string option"
  repScore :: "num option"
  repRisks :: "Risk list option"
  repRugged :: "bool option"
  repPrice :: "num option"
  repTotalHolders :: "num option"
  repTransferFee :: "TransferFee option"

datatype rug_reply =
    RugResponse "RugReport option"
  | RugAxiosError "int option"
  | RugOtherError

datatype rr_outcome = RRemoves | RNoop | RThrows

record env =
  isPublicKey :: "string \<Rightarrow> bool"
  getAccountInfo :: "string \<Rightarrow> error + string option"
  getTokenSupplyRpc :: "string \<Rightarrow> error + (num \<times> int) option"
  dexTokenPrice :: "string \<Rightarrow> error + num option"
  poolPrice :: "string \<Rightarrow> error + num"
  solPriceUsd :: num
  tokenSupplyOf :: "string \<Rightarrow> num"
  dbAvailable :: bool
  txOutcome :: tx_outcome
  publishOk :: bool
  removeRepeatableOutcome :: "string \<Rightarrow> rr_outcome"
  jobRemoveThrows :: "JobInst \<Rightarrow> bool"
  largestAccounts :: "string \<Rightarrow> error + (string \<times> num option) list option"
  tokenMetadata :: "string \<Rightarrow> error + string option \<times> string option"
  rugCheckReport :: "string \<Rightarrow> rug_reply"

section \<open>Token validation (tokenValidationService.ts)\<close>

definition SOL_MINT :: string where
  "SOL_MINT = ''So11111111111111111111111111111111111111112''"

definition TOKEN_PROGRAM_ID :: string where
  "TOKEN_PROGRAM_ID = ''TokenkegQfeZyiNwAJbNbGKPFXCWuBvf9Ss623VQ5DA''"

definition TOKEN_2022_PROGRAM_ID :: string where
  "TOKEN_2022_PROGRAM_ID = ''TokenzQdBNbLqP5VEhdkAS6EPFLC1PHnBqCXEpPxuEb''"

definition VALIDATION_CACHE_TTL :: int where
  "VALIDATION_CACHE_TTL = 3600"

definition invalidResult :: "string \<Rightarrow> TokenValidationResult" where
  "invalidResult why =
     \<lparr> isValid = False, reason = Some why, decimals = None, supplyUi = None,
       tvName = None, tvSymbol = None \<rparr>"

definition validResult :: "int option \<Rightarrow> num option \<Rightarrow> TokenValidationResult" where
  "validResult d s =
     \<lparr> isValid = True, reason = None, decimals = d, supplyUi = s,
       tvName = None, tvSymbol = None \<rparr>"

text \<open>\<^verbatim>\<open>/^[1-9A-HJ-NP-Za-km-z]+$/\<close>\<close>

definition base58Alphabet :: string where
  "base58Alphabet = ''123456789ABCDEFGHJKLMNPQRSTUVWXYZabcdefghijkmnopqrstuvwxyz''"

definition base58Regex :: "string \<Rightarrow> bool" where
  "base58Regex s = (s \<noteq> [] \<and> list_all (\<lambda>c. c \<in> set base58Alphabet) s)"

definition validateAddressFormat :: "env \<Rightarrow> string \<Rightarrow> TokenValidationResult" where
  "validateAddressFormat e tm =
     (if tm = [] then invalidResult ''Invalid address format: not a string''
      else if length tm < 32 \<or> length tm > 44
        then invalidResult ''Invalid address format: incorrect length''
      else if \<not> base58Regex tm
        then invalidResult ''Invalid address format: invalid base58 characters''
      else if isPublicKey e tm then validResult None None
      else invalidResult ''Invalid address format: not a valid Solana public key'')"

text \<open>
  \<^verbatim>\<open>validateOnChain\<close>. The outer \<^verbatim>\<open>catch\<close> turns a failed \<^verbatim>\<open>getAccountInfo\<close> into an
  invalid verdict, the inner one a failed \<^verbatim>\<open>getTokenSupply\<close>. The supply is
  \<^verbatim>\<open>parseFloat(amount) / Math.pow(10, decimals)\<close>.
\<close>

definition checkSupply :: "env \<Rightarrow> string \<Rightarrow> TokenValidationResult" where
  "checkSupply e tm =
     (case getTokenSupplyRpc e tm of
        Inl err \<Rightarrow> invalidResult ''Unable to get token supply information''
      | Inr None \<Rightarrow> invalidResult ''Unable to get token supply''
      | Inr (Some (amount, dec)) \<Rightarrow>
          (if dec < 0 \<or> dec > 18 then invalidResult ''Invalid token decimals''
           else if amount / 10 ^ nat dec \<le> 0 then invalidResult ''Token has no supply''
           else validResult (Some dec) (Some (amount / 10 ^ nat dec))))"

definition validateOnChain :: "env \<Rightarrow> string \<Rightarrow> TokenValidationResult" where
  "validateOnChain e tm =
     (if \<not> isPublicKey e tm
        then invalidResult (''On-chain validation failed: '' @ ''Invalid public key input'')
      else (case getAccountInfo e tm of
        Inl err \<Rightarrow> invalidResult (''On-chain validation failed: '' @ message err)
      | Inr None \<Rightarrow> invalidResult ''Token mint account does not exist''
      | Inr (Some owner) \<Rightarrow>
          (if owner \<noteq> TOKEN_PROGRAM_ID \<and> owner \<noteq> TOKEN_2022_PROGRAM_ID
             then invalidResult ''Account is not a token mint''
           else checkSupply e tm)))"

definition validationKey :: "string \<Rightarrow> string" where
  "validationKey tm = ''token_validation:'' @ tm"

text \<open>
  \<^verbatim>\<open>validateTokenMint\<close>: native mint, format, cache, chain; the chain verdict is cached for
  an hour whatever it is. A cached value that is not a validation result would make the
  caller read \<^verbatim>\<open>undefined\<close> for \<^verbatim>\<open>isValid\<close>, that is, invalid.
\<close>

definition validateTokenMint :: "env \<Rightarrow> world \<Rightarrow> string \<Rightarrow> TokenValidationResult \<times> world" where
  "validateTokenMint e w tm =
     (if tm = SOL_MINT
        then (\<lparr> isValid = True, reason = None, decimals = Some 9, supplyUi = Some 589000000,
                tvName = Some ''Solana'', tvSymbol = Some ''SOL'' \<rparr>, w)
      else if \<not> isValid (validateAddressFormat e tm) then (validateAddressFormat e tm, w)
      else (case redis_get (redis w) (now w) (validationKey tm) of
        Some (RValidation res) \<Rightarrow> (res, w)
      | Some _ \<Rightarrow> (\<lparr> isValid = False, reason = None, decimals = None, supplyUi = None,
                      tvName = None, tvSymbol = None \<rparr>, w)
      | None \<Rightarrow>
          (validateOnChain e tm,
           w\<lparr> redis := redis_setex (redis w) (now w) (validationKey tm) VALIDATION_CACHE_TTL
                          (RValidation (validateOnChain e tm)) \<rparr>)))"

text \<open>
  \<^verbatim>\<open>cleanupInvalidToken\<close>: both tables are purged in one transaction, then the cache keys
  are deleted. A database failure is caught and logged, and skips the cache deletion.
\<close>

definition purgeTables :: "world \<Rightarrow> string \<Rightarrow> world" where
  "purgeTables w tm =
     w\<lparr> priceHistoryTable := filter (\<lambda>h. phTokenMint h \<noteq> tm) (priceHistoryTable w),
        tokenPriceTable := (tokenPriceTable w)(tm := None) \<rparr>"

definition cleanupCacheKeys :: "string \<Rightarrow> string list" where
  "cleanupCacheKeys tm =
     [''token_price_sol:'' @ tm, ''token_supply:'' @ tm, ''token_decimals:'' @ tm,
      ''dexscreener_price:'' @ tm, validationKey tm]"

definition cleanupInvalidToken :: "env \<Rightarrow> world \<Rightarrow> string \<Rightarrow> world" where
  "cleanupInvalidToken e w tm =
     (if \<not> dbAvailable e then w
      else let w1 = purgeTables w tm
           in w1\<lparr> redis := redis_del_prefix
                               (foldl redis_del (redis w1) (cleanupCacheKeys tm))
                               (''pool_address:'' @ tm @ '':'') \<rparr>)"

section \<open>The pricing engine (priceTrackingService.ts)\<close>

text \<open>
  \<^verbatim>\<open>getTokenSupply\<close> and \<^verbatim>\<open>getSolPriceUsd\<close> catch every error and fall back to a constant,
  so each yields a number: \<open>tokenSupplyOf\<close> and \<open>solPriceUsd\<close> of the environment. The
  aggregator's answer for a mint is \<open>dexTokenPrice\<close> (the \<^verbatim>\<open>priceInSol\<close> of
  \<^verbatim>\<open>dexScreenerService.getTokenPrice\<close>, \<open>None\<close> when it returns \<^verbatim>\<open>null\<close>), the price read
  from an on-chain pool is \<open>poolPrice\<close>.
\<close>

definition priceCacheKey :: "string \<Rightarrow> string" where
  "priceCacheKey tm = ''token_price_sol:'' @ tm"

definition cachePrice :: "world \<Rightarrow> string \<Rightarrow> num \<Rightarrow> world" where
  "cachePrice w tm p =
     w\<lparr> redis := redis_setex (redis w) (now w) (priceCacheKey tm) 5 (RPrice p (now w)) \<rparr>"

text \<open>The cached price, when the cache holds one younger than five seconds.\<close>

definition freshCachedPrice :: "world \<Rightarrow> string \<Rightarrow> num option" where
  "freshCachedPrice w tm =
     (case redis_get (redis w) (now w) (priceCacheKey tm) of
        Some (RPrice p ts) \<Rightarrow> (if now w - ts < 5000 then Some p else None)
      | _ \<Rightarrow> None)"

text \<open>The aggregator's price when the call returned one greater than 0.\<close>

definition dexScreenerPrice :: "env \<Rightarrow> string \<Rightarrow> num option" where
  "dexScreenerPrice e tm =
     (case dexTokenPrice e tm of
        Inr (Some p) \<Rightarrow> (if p > 0 then Some p else None)
      | _ \<Rightarrow> None)"

text \<open>The pool price when the pool read succeeded with a price greater than 0.\<close>

definition rpcPoolPrice :: "env \<Rightarrow> string \<Rightarrow> num option" where
  "rpcPoolPrice e tm =
     (case poolPrice e tm of
        Inr p \<Rightarrow> (if p > 0 then Some p else None)
      | Inl err \<Rightarrow> None)"

text \<open>The body of the outer \<^verbatim>\<open>try\<close> of \<^verbatim>\<open>getTokenPriceInSolOptimized\<close>.\<close>

definition priceInSolTry :: "env \<Rightarrow> world \<Rightarrow> string \<Rightarrow> (error + num) \<times> world" where
  "priceInSolTry e w tm =
     (if tm = SOL_MINT then (Inr 1, w)
      else (case freshCachedPrice w tm of
        Some p \<Rightarrow> (Inr p, w)
      | None \<Rightarrow>
          (case dexScreenerPrice e tm of
             Some p \<Rightarrow> (Inr p, cachePrice w tm p)
           | None \<Rightarrow>
               (case rpcPoolPrice e tm of
                  Some p \<Rightarrow> (Inr p, cachePrice w tm p)
                | None \<Rightarrow> (Inl (Error ''All pricing methods failed''), w)))))"

text \<open>The outer \<^verbatim>\<open>catch\<close> logs the error and returns 0.\<close>

definition getTokenPriceInSolOptimized :: "env \<Rightarrow> world \<Rightarrow> string \<Rightarrow> num \<times> world" where
  "getTokenPriceInSolOptimized e w tm =
     (case priceInSolTry e w tm of
        (Inr p, w') \<Rightarrow> (p, w')
      | (Inl err, w') \<Rightarrow> (0, w'))"

definition reasonText :: "TokenValidationResult \<Rightarrow> string" where
  "reasonText v = (case reason v of None \<Rightarrow> ''undefined'' | Some r \<Rightarrow> r)"

definition invalidMintError :: "TokenValidationResult \<Rightarrow> error" where
  "invalidMintError v = Error (''Invalid token mint: '' @ reasonText v)"

definition getTokenPrice ::
  "env \<Rightarrow> world \<Rightarrow> string \<Rightarrow> (error + TokenPriceData) \<times> world" where
  "getTokenPrice e w tm =
     (let (validation, w1) = validateTokenMint e w tm
      in if \<not> isValid validation then (Inl (invalidMintError validation), w1)
         else let (pSol, w2) = getTokenPriceInSolOptimized e w1 tm;
                  pUsd = pSol * solPriceUsd e
              in (Inr \<lparr> tokenMint = tm, priceUsd = pUsd, priceInSol = pSol,
                         marketCap = pUsd * tokenSupplyOf e tm,
                         totalSupply = tokenSupplyOf e tm, timestamp = now w2 \<rparr>, w2))"

text \<open>
  The two statements of the transaction of \<^verbatim>\<open>updateTokenPrice\<close>. \<^verbatim>\<open>lastUpdated\<close> is
  \<^verbatim>\<open>@updatedAt\<close> and the history \<^verbatim>\<open>timestamp\<close> is \<^verbatim>\<open>@default(now())\<close>; the history id is
  autoincremented.
\<close>

definition upsertTokenPrice :: "TokenPriceData \<Rightarrow> world \<Rightarrow> world" where
  "upsertTokenPrice d w =
     w\<lparr> tokenPriceTable := (tokenPriceTable w)(tokenMint d \<mapsto>
          \<lparr> tpPriceUsd = priceUsd d, tpPriceInSol = priceInSol d, tpMarketCap = marketCap d,
            tpTotalSupply = totalSupply d, tpLastUpdated = now w \<rparr>) \<rparr>"

definition createPriceHistory :: "TokenPriceData \<Rightarrow> world \<Rightarrow> world" where
  "createPriceHistory d w =
     w\<lparr> priceHistoryTable := priceHistoryTable w @
          [\<lparr> phId = nextHistoryId w, phTokenMint = tokenMint d, phPriceUsd = priceUsd d,
             phPriceInSol = priceInSol d, phMarketCap = marketCap d, phTimestamp = now w \<rparr>],
        nextHistoryId := Suc (nextHistoryId w) \<rparr>"

text \<open>
  \<^verbatim>\<open>prisma.$transaction(async tx => { first; second })\<close>: when a statement throws, the
  transaction is rolled back and the error is rethrown.
\<close>

definition prismaTransaction ::
  "tx_outcome \<Rightarrow> (world \<Rightarrow> world) \<Rightarrow> (world \<Rightarrow> world) \<Rightarrow> world \<Rightarrow> (error + unit) \<times> world" where
  "prismaTransaction outcome first second w =
     (case outcome of
        TxCommit \<Rightarrow> (Inr (), second (first w))
      | TxFailUpsert \<Rightarrow> (Inl (Error ''upsert failed''), w)
      | TxFailCreate \<Rightarrow> (Inl (Error ''create failed''), w))"

text \<open>\<^verbatim>\<open>redisPublisher.publish('price_update', ...)\<close>; a failed publish is only logged.\<close>

definition publishPriceUpdate :: "env \<Rightarrow> TokenPriceData \<Rightarrow> world \<Rightarrow> world" where
  "publishPriceUpdate e d w = (if publishOk e then w\<lparr> published := published w @ [d] \<rparr> else w)"

text \<open>The body of the \<^verbatim>\<open>try\<close> of \<^verbatim>\<open>updateTokenPrice\<close>.\<close>

definition updateTokenPriceTry ::
  "env \<Rightarrow> world \<Rightarrow> string \<Rightarrow> (error + unit) \<times> world" where
  "updateTokenPriceTry e w tm =
     (let (validation, w1) = validateTokenMint e w tm
      in if \<not> isValid validation
         then (Inl (invalidMintError validation), cleanupInvalidToken e w1 tm)
         else (case getTokenPrice e w1 tm of
           (Inl err, w2) \<Rightarrow> (Inl err, w2)
         | (Inr d, w2) \<Rightarrow>
             (case prismaTransaction (txOutcome e) (upsertTokenPrice d) (createPriceHistory d) w2 of
                (Inl err, w3) \<Rightarrow> (Inl err, w3)
              | (Inr u, w3) \<Rightarrow> (Inr (), publishPriceUpdate e d w3))))"

text \<open>
  \<^verbatim>\<open>updateTokenPrice\<close>: the \<^verbatim>\<open>catch\<close> around the whole body logs whatever was thrown, the
  error of an invalid mint included, and the function returns normally.
\<close>

definition updateTokenPrice ::
  "env \<Rightarrow> world \<Rightarrow> string \<Rightarrow> (error + unit) \<times> world" where
  "updateTokenPrice e w tm =
     (case updateTokenPriceTry e w tm of
        (Inr u, w') \<Rightarrow> (Inr (), w')
      | (Inl err, w') \<Rightarrow> (Inr (), w'))"

definition getCurrentPrice :: "env \<Rightarrow> world \<Rightarrow> string \<Rightarrow> TokenPriceData option" where
  "getCurrentPrice e w tm =
     (if \<not> dbAvailable e then None
      else (case tokenPriceTable w tm of
        None \<Rightarrow> None
      | Some r \<Rightarrow> Some \<lparr> tokenMint = tm, priceUsd = tpPriceUsd r, priceInSol = tpPriceInSol r,
                          marketCap = tpMarketCap r, totalSupply = tpTotalSupply r,
                          timestamp = tpLastUpdated r \<rparr>))"

section \<open>The scheduler (pollerWorker.ts)\<close>

definition PRICE_POLL_INTERVAL :: int where
  "PRICE_POLL_INTERVAL = 1000"

definition invalidKey :: "string \<Rightarrow> string" where
  "invalidKey tm = ''invalid_token:'' @ tm"

definition jobIdOf :: "string \<Rightarrow> string" where
  "jobIdOf tm = ''price-'' @ tm"

text \<open>\<^verbatim>\<open>await redis.get(invalidKey)\<close> is truthy.\<close>

definition isBanned :: "world \<Rightarrow> string \<Rightarrow> bool" where
  "isBanned w tm = (redis_get (redis w) (now w) (invalidKey tm) \<noteq> None)"

text \<open>\<^verbatim>\<open>redis.setex(invalidKey, 86400, 'true')\<close>: the 24 hour ban.\<close>

definition setBan :: "world \<Rightarrow> string \<Rightarrow> world" where
  "setBan w tm =
     w\<lparr> redis := redis_setex (redis w) (now w) (invalidKey tm) 86400 (RStr ''true'') \<rparr>"

text \<open>
  The queue as BullMQ provides it. \<^verbatim>\<open>removeRepeatable(name, {every})\<close> removes the
  repeatable job of that name and period when the queue finds its key; it may find none
  (\<open>RNoop\<close>) or throw (\<open>RThrows\<close>): the environment decides. \<^verbatim>\<open>add\<close> with a \<^verbatim>\<open>repeat\<close>
  option registers the repeatable job under its key (name, job id, period): a key already
  registered is not registered twice.
\<close>

definition removeRepeatable ::
  "env \<Rightarrow> string \<Rightarrow> int \<Rightarrow> RepeatableJob list \<Rightarrow> (error + unit) \<times> RepeatableJob list" where
  "removeRepeatable e nm every q =
     (case removeRepeatableOutcome e nm of
        RRemoves \<Rightarrow> (Inr (), filter (\<lambda>j. \<not> (rjName j = nm \<and> rjEvery j = every)) q)
      | RNoop \<Rightarrow> (Inr (), q)
      | RThrows \<Rightarrow> (Inl (Error ''removeRepeatable failed''), q))"

definition sameRepeatKey :: "RepeatableJob \<Rightarrow> RepeatableJob \<Rightarrow> bool" where
  "sameRepeatKey a b = (rjName a = rjName b \<and> rjId a = rjId b \<and> rjEvery a = rjEvery b)"

definition queueAddRepeatable :: "RepeatableJob \<Rightarrow> RepeatableJob list \<Rightarrow> RepeatableJob list" where
  "queueAddRepeatable j q = (if list_ex (sameRepeatKey j) q then q else q @ [j])"

text \<open>
  Step 1 of \<^verbatim>\<open>obliterateTokenJobs\<close>, for one entry of \<^verbatim>\<open>getRepeatableJobs()\<close>: remove it
  under its own name, and when that throws, under the job id with the standard period;
  a second failure is logged. The pattern of a listed job is never a JavaScript number,
  so the period passed is \<open>PRICE_POLL_INTERVAL\<close>.
\<close>

definition obliterateRepeatable ::
  "env \<Rightarrow> string \<Rightarrow> RepeatableJob list \<Rightarrow> RepeatableJob \<Rightarrow> RepeatableJob list" where
  "obliterateRepeatable e jobId q rj =
     (if rjName rj = jobId \<or> rjId rj = jobId
      then (case removeRepeatable e (rjName rj) PRICE_POLL_INTERVAL q of
              (Inr u, q1) \<Rightarrow> q1
            | (Inl err, q1) \<Rightarrow> snd (removeRepeatable e jobId PRICE_POLL_INTERVAL q1))
      else q)"

text \<open>
  Step 2, for the jobs of one state: every job of the mint is removed, up to the first
  \<^verbatim>\<open>job.remove()\<close> that throws, which ends the loop over this state.
\<close>

fun removedInState :: "env \<Rightarrow> string \<Rightarrow> JobInst list \<Rightarrow> JobInst list" where
  "removedInState e tm [] = []"
| "removedInState e tm (j # js) =
     (if jiTokenMint j = tm
      then (if jobRemoveThrows e j then [] else j # removedInState e tm js)
      else removedInState e tm js)"

definition allStates :: "job_state list" where
  "allStates = [Waiting, Active, Delayed, Completed, Failed, Paused]"

text \<open>\<^verbatim>\<open>priceQueue.getJobs([state], 0, 1000)\<close>: the first 1001 jobs of the state.\<close>

definition getJobs :: "JobInst list \<Rightarrow> job_state \<Rightarrow> JobInst list" where
  "getJobs js st = take 1001 (filter (\<lambda>j. jiState j = st) js)"

definition obliterateState :: "env \<Rightarrow> string \<Rightarrow> JobInst list \<Rightarrow> job_state \<Rightarrow> JobInst list" where
  "obliterateState e tm js st =
     filter (\<lambda>j. j \<notin> set (removedInState e tm (getJobs js st))) js"

text \<open>
  Step 3 deletes the Redis keys matching \<^verbatim>\<open>bull:price-tracking:*<jobId>*\<close>. A job instance
  lives under \<^verbatim>\<open>bull:price-tracking:<id>\<close>; the repeatable jobs live in the one sorted set
  \<^verbatim>\<open>bull:price-tracking:repeat\<close>, whose name the pattern does not match.
\<close>

definition obliterateKeys :: "string \<Rightarrow> JobInst list \<Rightarrow> JobInst list" where
  "obliterateKeys jobId js = filter (\<lambda>j. \<not> str_includes (jiId j) jobId) js"

definition obliterateTokenJobs :: "env \<Rightarrow> world \<Rightarrow> string \<Rightarrow> world" where
  "obliterateTokenJobs e w tm =
     (let jobId = jobIdOf tm;
          q = foldl (obliterateRepeatable e jobId) (repeatableJobs w) (repeatableJobs w);
          js = foldl (obliterateState e tm) (jobInsts w) allStates
      in w\<lparr> repeatableJobs := q, jobInsts := obliterateKeys jobId js \<rparr>)"

text \<open>
  \<^verbatim>\<open>removeTokenFromTracking\<close>: ban, obliterate, purge both tables. A database failure is
  caught and logged.
\<close>

definition removeTokenFromTracking :: "env \<Rightarrow> world \<Rightarrow> string \<Rightarrow> world" where
  "removeTokenFromTracking e w tm =
     (let w1 = obliterateTokenJobs e (setBan w tm) tm
      in if dbAvailable e then purgeTables w1 tm else w1)"

text \<open>\<^verbatim>\<open>addTokenForTracking\<close>: validate, set the ban when invalid, refuse a banned mint,
  obliterate, add one repeatable job.\<close>

definition priceJob :: "string \<Rightarrow> RepeatableJob" where
  "priceJob tm = \<lparr> rjName = jobIdOf tm, rjId = jobIdOf tm, rjEvery = PRICE_POLL_INTERVAL \<rparr>"

definition addTokenForTracking :: "env \<Rightarrow> world \<Rightarrow> string \<Rightarrow> world" where
  "addTokenForTracking e w tm =
     (let (validation, w1) = validateTokenMint e w tm
      in if \<not> isValid validation then setBan w1 tm
         else if isBanned w1 tm then w1
         else let w2 = obliterateTokenJobs e w1 tm
              in w2\<lparr> repeatableJobs := queueAddRepeatable (priceJob tm) (repeatableJobs w2) \<rparr>)"

text \<open>
  The worker's processor for a job with payload \<^verbatim>\<open>{tokenMint}\<close>. \<open>Inr ()\<close> is a completed
  job, \<open>Inl\<close> a failed one. \<^verbatim>\<open>pollingJobsTotal.inc\<close> is recorded as a (mint, status) pair.
\<close>

definition incPolling :: "string \<Rightarrow> string \<Rightarrow> world \<Rightarrow> world" where
  "incPolling tm status w = w\<lparr> pollingJobsTotal := pollingJobsTotal w @ [(tm, status)] \<rparr>"

definition worker :: "env \<Rightarrow> world \<Rightarrow> string \<Rightarrow> (error + unit) \<times> world" where
  "worker e w tm =
     (if isBanned w tm then (Inr (), removeTokenFromTracking e w tm)
      else (case updateTokenPrice e w tm of
        (Inr u, w1) \<Rightarrow> (Inr (), incPolling tm ''success'' w1)
      | (Inl err, w1) \<Rightarrow>
          (if str_includes (message err) ''Invalid token mint''
           then (Inr (), incPolling tm ''invalid'' (removeTokenFromTracking e w1 tm))
           else (Inl err, incPolling tm ''error'' w1))))"

text \<open>A history of the scheduler: enrolments, bans and worker ticks, each with the
  answers the outside gave during it, and the passing of time between them.\<close>

datatype sched_op =
    Enrol env string
  | BanAndRemove env string
  | Tick env string
  | Wait nat

fun sched_step :: "world \<Rightarrow> sched_op \<Rightarrow> world" where
  "sched_step w (Enrol e tm) = addTokenForTracking e w tm"
| "sched_step w (BanAndRemove e tm) = removeTokenFromTracking e w tm"
| "sched_step w (Tick e tm) = snd (worker e w tm)"
| "sched_step w (Wait ms) = w\<lparr> now := now w + int ms \<rparr>"

definition sched_run :: "world \<Rightarrow> sched_op list \<Rightarrow> world" where
  "sched_run w ops = foldl sched_step w ops"

section \<open>The broadcast hub (socketService.ts)\<close>

datatype event =
    SubscriptionError string string "string option"
  | SubscriptionStatus string string
  | PriceUpdateEvent TokenPriceData
  | SubscriptionSuccess string nat
  | ErrorEvent string

text \<open>
  One client socket: its entry in the \<^verbatim>\<open>socketSubscriptions\<close> weak map (\<open>None\<close> when the
  map has none), the rooms it joined and the events emitted to it.
\<close>

record socket =
  subscriptions :: "string list option"
  rooms :: "string list"
  emitted :: "event list"

definition emit :: "event \<Rightarrow> socket \<Rightarrow> socket" where
  "emit ev s = s\<lparr> emitted := emitted s @ [ev] \<rparr>"

definition roomOf :: "string \<Rightarrow> string" where
  "roomOf tm = ''token:'' @ tm"

text \<open>The inner \<^verbatim>\<open>try\<close> of \<^verbatim>\<open>subscribeToToken\<close>: discover the token, then send the
  initial price and the confirmation.\<close>

definition discoverToken ::
  "env \<Rightarrow> world \<Rightarrow> string \<Rightarrow> (error + TokenPriceData) \<times> world" where
  "discoverToken e w tm =
     (case getCurrentPrice e w tm of
        Some d \<Rightarrow> (Inr d, w)
      | None \<Rightarrow>
          (case getTokenPrice e w tm of
             (Inl err, w1) \<Rightarrow> (Inl err, w1)
           | (Inr d, w1) \<Rightarrow>
               (Inr d, addTokenForTracking e (snd (updateTokenPrice e w1 tm)) tm)))"

definition subscribeToToken :: "env \<Rightarrow> socket \<times> world \<Rightarrow> string \<Rightarrow> socket \<times> world" where
  "subscribeToToken e sw tm =
     (let (s, w) = sw;
          (validation, w1) = validateTokenMint e w tm
      in if \<not> isValid validation
         then (emit (SubscriptionError tm (''Invalid token mint: '' @ reasonText validation)
                       (Some ''INVALID_TOKEN_MINT'')) s, w1)
         else (case subscriptions s of
           None \<Rightarrow> (emit (ErrorEvent ''Socket not properly initialized'') s, w1)
         | Some subs \<Rightarrow>
             (if tm \<in> set subs
              then (emit (SubscriptionStatus tm ''already_subscribed'') s, w1)
              else (case discoverToken e w1 tm of
                (Inr d, w2) \<Rightarrow>
                  (emit (SubscriptionSuccess tm (length (subs @ [tm])))
                     (emit (PriceUpdateEvent d)
                        (s\<lparr> subscriptions := Some (subs @ [tm]),
                            rooms := rooms s @ [roomOf tm] \<rparr>)), w2)
              | (Inl err, w2) \<Rightarrow>
                  (emit (SubscriptionError tm ''Failed to discover token'' None)
                     (s\<lparr> subscriptions := Some subs,
                         rooms := filter (\<lambda>r. r \<noteq> roomOf tm) (rooms s) \<rparr>), w2)))))"

section \<open>The read API (tokenController.ts, metricService.ts, types/api.ts)\<close>

datatype 'a response = Json200 'a | Status400 string

datatype window = W1m | W5m | W1h

text \<open>\<^verbatim>\<open>MetricsQuerySchema.parse(req.query)\<close>: the window defaults to \<^verbatim>\<open>'1h'\<close>; any other
  value than the three of the enum throws.\<close>

definition parseWindow :: "string option \<Rightarrow> error + window" where
  "parseWindow q =
     (case q of
        None \<Rightarrow> Inr W1h
      | Some s \<Rightarrow>
          (if s = ''1m'' then Inr W1m
           else if s = ''5m'' then Inr W5m
           else if s = ''1h'' then Inr W1h
           else Inl (Error ''Invalid enum value'')))"

fun windowMs :: "window \<Rightarrow> int" where
  "windowMs W1m = 60 * 1000"
| "windowMs W5m = 5 * 60 * 1000"
| "windowMs W1h = 60 * 60 * 1000"

record HistoryEntry =
  hePriceUsd :: num
  hePriceInSol :: num
  heMarketCap :: num
  heTimestamp :: int

record HistoryBody =
  hbData :: "HistoryEntry list"
  hbWindow :: window
  hbTotal :: nat

text \<open>\<^verbatim>\<open>prisma.priceHistory.findMany({where: {tokenMint, timestamp: {gte}}, orderBy:
  {timestamp: 'asc'}, take: 1000})\<close>\<close>

definition findHistory :: "PriceHistoryRow list \<Rightarrow> string \<Rightarrow> int \<Rightarrow> PriceHistoryRow list" where
  "findHistory table tm startTime =
     take 1000
       (sort_key phTimestamp
          (filter (\<lambda>h. phTokenMint h = tm \<and> phTimestamp h \<ge> startTime) table))"

definition toEntry :: "PriceHistoryRow \<Rightarrow> HistoryEntry" where
  "toEntry h =
     \<lparr> hePriceUsd = phPriceUsd h, hePriceInSol = phPriceInSol h,
       heMarketCap = phMarketCap h, heTimestamp = phTimestamp h \<rparr>"

definition getTokenHistory ::
  "env \<Rightarrow> world \<Rightarrow> string \<Rightarrow> string option \<Rightarrow> HistoryBody response" where
  "getTokenHistory e w mint q =
     (if mint = [] then Status400 ''Token mint is required''
      else (case parseWindow q of
        Inl err \<Rightarrow> Status400 (message err)
      | Inr win \<Rightarrow>
          (if \<not> dbAvailable e then Status400 ''database error''
           else let rows = findHistory (priceHistoryTable w) mint (now w - windowMs win)
                in Json200 \<lparr> hbData = map toEntry rows, hbWindow = win,
                              hbTotal = length rows \<rparr>)))"

text \<open>
  \<^verbatim>\<open>parseInt(s)\<close> with no radix: leading white space, an optional sign, an optional
  \<^verbatim>\<open>0x\<close> prefix, then the longest run of digits; \<open>None\<close> is \<^verbatim>\<open>NaN\<close>.
\<close>

definition isWhiteSpace :: "char \<Rightarrow> bool" where
  "isWhiteSpace c = (c \<in> set [CHR 0x09, CHR 0x0A, CHR 0x0B, CHR 0x0C, CHR 0x0D, CHR '' ''])"

definition digitValue :: "char \<Rightarrow> nat option" where
  "digitValue c =
     map_of (zip ''0123456789abcdefABCDEF''
                 [0, 1, 2, 3, 4, 5, 6, 7, 8, 9, 10, 11, 12, 13, 14, 15, 10, 11, 12, 13, 14, 15]) c"

definition isDigitIn :: "nat \<Rightarrow> char \<Rightarrow> bool" where
  "isDigitIn radix c = (case digitValue c of None \<Rightarrow> False | Some d \<Rightarrow> d < radix)"

definition digitsValue :: "nat \<Rightarrow> string \<Rightarrow> nat" where
  "digitsValue radix ds = foldl (\<lambda>acc c. acc * radix + (case digitValue c of None \<Rightarrow> 0 | Some d \<Rightarrow> d)) 0 ds"

definition parseDigits :: "nat \<Rightarrow> string \<Rightarrow> nat option" where
  "parseDigits radix s =
     (let ds = takeWhile (isDigitIn radix) s
      in if ds = [] then None else Some (digitsValue radix ds))"

definition parseUnsigned :: "string \<Rightarrow> nat option" where
  "parseUnsigned s =
     (if prefix ''0x'' s \<or> prefix ''0X'' s then parseDigits 16 (drop 2 s)
      else parseDigits 10 s)"

definition parseInt :: "string \<Rightarrow> int option" where
  "parseInt s =
     (let t = dropWhile isWhiteSpace s
      in case t of
           [] \<Rightarrow> None
         | c # r \<Rightarrow>
             (if c = CHR ''-'' then map_option (\<lambda>n. - int n) (parseUnsigned r)
              else if c = CHR ''+'' then map_option int (parseUnsigned r)
              else map_option int (parseUnsigned t)))"

text \<open>\<^verbatim>\<open>parseInt(req.query.limit as string) || 10\<close>: an absent parameter, \<^verbatim>\<open>NaN\<close> and
  \<open>0\<close> all give 10.\<close>

definition limitOf :: "string option \<Rightarrow> int" where
  "limitOf q =
     (case q of
        None \<Rightarrow> 10
      | Some s \<Rightarrow> (case parseInt s of None \<Rightarrow> 10 | Some n \<Rightarrow> (if n = 0 then 10 else n)))"

text \<open>The decimal text of an integer, as a template literal prints it.\<close>

fun showNat :: "nat \<Rightarrow> string" where
  "showNat n =
     (if n < 10 then [''0123456789'' ! n]
      else showNat (n div 10) @ [''0123456789'' ! (n mod 10)])"

definition showInt :: "int \<Rightarrow> string" where
  "showInt i = (if i < 0 then CHR ''-'' # showNat (nat (- i)) else showNat (nat i))"

text \<open>\<^verbatim>\<open>xs.slice(0, n)\<close>: a negative \<open>n\<close> counts from the end.\<close>

definition slice0 :: "'a list \<Rightarrow> int \<Rightarrow> 'a list" where
  "slice0 xs n = (if n \<ge> 0 then take (nat n) xs else take (length xs - nat (- n)) xs)"

definition SOL_TOTAL_SUPPLY :: num where
  "SOL_TOTAL_SUPPLY = 589000000"

definition fallbackInfo :: TokenInfo where
  "fallbackInfo =
     \<lparr> tiName = ''Unknown Token'', tiSymbol = ''UNKNOWN'', tiDecimals = 9,
       tiTotalSupply = 1000000000 \<rparr>"

text \<open>\<^verbatim>\<open>s || dflt\<close> on an optional string: \<^verbatim>\<open>undefined\<close> and the empty string give the
  default.\<close>

definition orString :: "string option \<Rightarrow> string \<Rightarrow> string" where
  "orString s dflt = (case s of None \<Rightarrow> dflt | Some t \<Rightarrow> (if t = [] then dflt else t))"

text \<open>The \<^verbatim>\<open>try\<close> of \<^verbatim>\<open>getTokenInfo\<close>; its \<^verbatim>\<open>catch\<close> returns the fallback data.\<close>

definition fetchTokenInfo :: "env \<Rightarrow> world \<Rightarrow> string \<Rightarrow> (error + TokenInfo) \<times> world" where
  "fetchTokenInfo e w tm =
     (if tm = SOL_MINT
      then (let solInfo = \<lparr> tiName = ''Solana'', tiSymbol = ''SOL'', tiDecimals = 9,
                              tiTotalSupply = SOL_TOTAL_SUPPLY \<rparr>
            in (Inr solInfo,
                w\<lparr> redis := redis_setex (redis w) (now w) (''token_info:'' @ tm) 3600
                               (RTokenInfo solInfo) \<rparr>))
      else (case tokenMetadata e tm of
        Inl err \<Rightarrow> (Inl err, w)
      | Inr (metaName, metaSymbol) \<Rightarrow>
          (case getTokenSupplyRpc e tm of
             Inl err \<Rightarrow> (Inl err, w)
           | Inr None \<Rightarrow> (Inl (Error ''Failed to get token supply''), w)
           | Inr (Some (amount, dec)) \<Rightarrow>
               (let info = \<lparr> tiName = orString metaName ''Unknown Token'',
                              tiSymbol = orString metaSymbol ''UNKNOWN'', tiDecimals = dec,
                              tiTotalSupply = amount / 10 ^ nat dec \<rparr>
                in (Inr info,
                    w\<lparr> redis := redis_setex (redis w) (now w) (''token_info:'' @ tm) 3600
                                   (RTokenInfo info) \<rparr>)))))"

text \<open>\<^verbatim>\<open>getTokenInfo\<close>: an invalid mint throws; a cached info is returned as it is. The key
  is written by this function only, so a cached value of another shape is read as the
  fallback data.\<close>

definition getTokenInfo :: "env \<Rightarrow> world \<Rightarrow> string \<Rightarrow> (error + TokenInfo) \<times> world" where
  "getTokenInfo e w tm =
     (let (validation, w1) = validateTokenMint e w tm
      in if \<not> isValid validation then (Inl (invalidMintError validation), w1)
         else (case redis_get (redis w1) (now w1) (''token_info:'' @ tm) of
           Some (RTokenInfo info) \<Rightarrow> (Inr info, w1)
         | Some other \<Rightarrow> (Inr fallbackInfo, w1)
         | None \<Rightarrow>
             (case fetchTokenInfo e w1 tm of
                (Inr info, w2) \<Rightarrow> (Inr info, w2)
              | (Inl err, w2) \<Rightarrow> (Inr fallbackInfo, w2))))"

definition topHoldersKey :: "string \<Rightarrow> int \<Rightarrow> string" where
  "topHoldersKey tm limit = ''top_holders:'' @ tm @ '':'' @ showInt limit"

definition toHolder :: "TokenInfo \<Rightarrow> string \<times> num option \<Rightarrow> HolderBalance" where
  "toHolder info account =
     \<lparr> address = fst account, balance = or0 (snd account),
       percentage = (if tiTotalSupply info > 0
                     then or0 (snd account) / tiTotalSupply info * 100 else 0) \<rparr>"

text \<open>The \<^verbatim>\<open>try\<close> of \<^verbatim>\<open>getTopHolders\<close>: the largest accounts, cut by
  \<^verbatim>\<open>slice(0, limit)\<close>, cached for five minutes.\<close>

definition fetchTopHolders ::
  "env \<Rightarrow> world \<Rightarrow> string \<Rightarrow> int \<Rightarrow> (error + HolderBalance list) \<times> world" where
  "fetchTopHolders e w tm limit =
     (case largestAccounts e tm of
        Inl err \<Rightarrow> (Inl err, w)
      | Inr accounts \<Rightarrow>
          (case getTokenInfo e w tm of
             (Inl err, w1) \<Rightarrow> (Inl err, w1)
           | (Inr info, w1) \<Rightarrow>
               (let holders = (case accounts of
                                 None \<Rightarrow> []
                               | Some accs \<Rightarrow> map (toHolder info) (slice0 accs limit))
                in (Inr holders,
                    w1\<lparr> redis := redis_setex (redis w1) (now w1) (topHoldersKey tm limit) 300
                                    (RHolders holders) \<rparr>))))"

text \<open>\<^verbatim>\<open>getTopHolders\<close>: an invalid mint throws; a cached list is returned as it is; any
  failure of the fetch gives the empty list. The key is written by this function only,
  so a cached value of another shape is read as no holders.\<close>

definition getTopHolders ::
  "env \<Rightarrow> world \<Rightarrow> string \<Rightarrow> int \<Rightarrow> (error + HolderBalance list) \<times> world" where
  "getTopHolders e w tm limit =
     (let (validation, w1) = validateTokenMint e w tm
      in if \<not> isValid validation then (Inl (invalidMintError validation), w1)
         else (case redis_get (redis w1) (now w1) (topHoldersKey tm limit) of
           Some (RHolders hs) \<Rightarrow> (Inr hs, w1)
         | Some other \<Rightarrow> (Inr [], w1)
         | None \<Rightarrow>
             (case fetchTopHolders e w1 tm limit of
                (Inr hs, w2) \<Rightarrow> (Inr hs, w2)
              | (Inl err, w2) \<Rightarrow> (Inr [], w2))))"

record HoldersBody =
  hoData :: "HolderBalance list"
  hoTotal :: nat
  hoLimit :: int

definition getTokenHolders ::
  "env \<Rightarrow> world \<Rightarrow> string \<Rightarrow> string option \<Rightarrow> HoldersBody response \<times> world" where
  "getTokenHolders e w mint q =
     (if mint = [] then (Status400 ''Token mint is required'', w)
      else if limitOf q > 100 then (Status400 ''Limit cannot exceed 100'', w)
      else (case getTopHolders e w mint (limitOf q) of
        (Inl err, w1) \<Rightarrow> (Status400 (message err), w1)
      | (Inr hs, w1) \<Rightarrow>
          (Json200 \<lparr> hoData = hs, hoTotal = length hs, hoLimit = limitOf q \<rparr>, w1)))"

definition calculateConcentrationRatio :: "env \<Rightarrow> world \<Rightarrow> string \<Rightarrow> num \<times> world" where
  "calculateConcentrationRatio e w tm =
     (case getTopHolders e w tm 10 of
        (Inr hs, w1) \<Rightarrow> (min (sum_list (map percentage hs)) 100, w1)
      | (Inl err, w1) \<Rightarrow> (0, w1))"

subsection \<open>The RugCheck service (rugCheckService.ts)\<close>

definition RUGCHECK_CACHE_TTL :: int where
  "RUGCHECK_CACHE_TTL = 300"

definition rugCheckKey :: "string \<Rightarrow> string" where
  "rugCheckKey tm = ''rugcheck:'' @ tm"

text \<open>
  The cache read of \<^verbatim>\<open>getTokenRugCheck\<close>: the entry is \<^verbatim>\<open>{result, timestamp}\<close>, and
  \<^verbatim>\<open>data.result\<close> is returned when \<^verbatim>\<open>Date.now() - data.timestamp < CACHE_TTL * 1000\<close>. The
  outer \<open>None\<close> is a miss. A price entry also has a \<^verbatim>\<open>timestamp\<close>, and no \<^verbatim>\<open>result\<close>: while
  young it would be answered with \<^verbatim>\<open>undefined\<close>. The other shapes have no \<^verbatim>\<open>timestamp\<close>
  (the age is \<^verbatim>\<open>NaN\<close>) or do not parse (the error is caught): a miss.
\<close>

definition cachedRugCheck :: "world \<Rightarrow> string \<Rightarrow> RugCheckData option option" where
  "cachedRugCheck w tm =
     (case redis_get (redis w) (now w) (rugCheckKey tm) of
        Some (RRugCheck d ts) \<Rightarrow>
          (if now w - ts < RUGCHECK_CACHE_TTL * 1000 then Some (Some d) else None)
      | Some (RPrice p ts) \<Rightarrow>
          (if now w - ts < RUGCHECK_CACHE_TTL * 1000 then Some None else None)
      | _ \<Rightarrow> None)"

text \<open>
  The record built from \<^verbatim>\<open>response.data\<close>: \<^verbatim>\<open>score_normalised || 0\<close>, \<^verbatim>\<open>risks || []\<close>,
  \<^verbatim>\<open>rugged || false\<close>, the other fields as they come.
\<close>

definition toRugCheckData :: "RugReport \<Rightarrow> RugCheckData" where
  "toRugCheckData rep =
     \<lparr> rugMint = repMint rep,
       score_normalised = or0 (repScore rep),
       risks = (case repRisks rep of None \<Rightarrow> [] | Some rs \<Rightarrow> rs),
       rugged = (case repRugged rep of None \<Rightarrow> False | Some b \<Rightarrow> b),
       rugPrice = repPrice rep,
       rugTotalHolders = repTotalHolders rep,
       rugTransferFee = repTransferFee rep \<rparr>"

text \<open>
  \<^verbatim>\<open>getTokenRugCheck\<close>: the cache, then the report. A report is cached for 300 seconds
  with the time of the call. A response without a body, a 404 and every error but one
  give \<^verbatim>\<open>null\<close>; a 429 throws.
\<close>

definition getTokenRugCheck ::
  "env \<Rightarrow> world \<Rightarrow> string \<Rightarrow> (error + RugCheckData option) \<times> world" where
  "getTokenRugCheck e w tm =
     (case cachedRugCheck w tm of
        Some res \<Rightarrow> (Inr res, w)
      | None \<Rightarrow>
          (case rugCheckReport e tm of
             RugResponse None \<Rightarrow> (Inr None, w)
           | RugResponse (Some rep) \<Rightarrow>
               (Inr (Some (toRugCheckData rep)),
                w\<lparr> redis := redis_setex (redis w) (now w) (rugCheckKey tm) RUGCHECK_CACHE_TTL
                                (RRugCheck (toRugCheckData rep) (now w)) \<rparr>)
           | RugAxiosError status \<Rightarrow>
               (if status = Some 404 then (Inr None, w)
                else if status = Some 429
                  then (Inl (Error ''RugCheck API rate limit exceeded''), w)
                else (Inr None, w))
           | RugOtherError \<Rightarrow> (Inr None, w)))"

text \<open>
  \<^verbatim>\<open>getOverallRiskLevel\<close> and \<^verbatim>\<open>getRiskSummary\<close>: a rugged token is critical, a score of at
  most 20 is high, of at most 50 medium, any other low; the summary counts the risks by
  level.
\<close>

definition getOverallRiskLevel :: "num \<Rightarrow> bool \<Rightarrow> string" where
  "getOverallRiskLevel score isRugged =
     (if isRugged then ''critical''
      else if score \<le> 20 then ''high''
      else if score \<le> 50 then ''medium''
      else ''low'')"

record RiskSummary =
  totalRisks :: nat
  highRisks :: nat
  mediumRisks :: nat
  lowRisks :: nat

definition getRiskSummary :: "Risk list \<Rightarrow> RiskSummary" where
  "getRiskSummary rs =
     \<lparr> totalRisks = length rs,
       highRisks = length (filter (\<lambda>r. riskLevelTag r = ''danger'') rs),
       mediumRisks = length (filter (\<lambda>r. riskLevelTag r = ''warn'') rs),
       lowRisks = length (filter (\<lambda>r. riskLevelTag r = ''info'') rs) \<rparr>"

subsection \<open>The comprehensive metrics (metricService.ts)\<close>

record RugCheckOut =
  rcScore :: num
  rcRisks :: "Risk list"
  rcRugged :: bool
  rcRiskLevel :: string
  rcRiskSummary :: RiskSummary

record TokenMetricsResult =
  mrTokenMint :: string
  mrName :: string
  mrSymbol :: string
  mrTotalSupply :: num
  mrPriceUsd :: num
  mrPriceInSol :: num
  mrMarketCap :: num
  mrConcentrationRatio :: num
  mrLastUpdated :: int
  mrRugCheck :: "RugCheckOut option"

definition toRugCheckOut :: "RugCheckData \<Rightarrow> RugCheckOut" where
  "toRugCheckOut d =
     \<lparr> rcScore = score_normalised d, rcRisks = risks d, rcRugged = rugged d,
       rcRiskLevel = getOverallRiskLevel (score_normalised d) (rugged d),
       rcRiskSummary = getRiskSummary (risks d) \<rparr>"

text \<open>
  \<^verbatim>\<open>getTokenMetrics(tokenMint, _window)\<close>. The four reads of the \<^verbatim>\<open>Promise.all\<close> are taken
  in the order of the array; a rejected one rejects the whole. \<^verbatim>\<open>currentPrice?.x || 0\<close>
  gives 0 when no row is stored. The window is a parameter of the function, as in the
  source.
\<close>

definition getTokenMetrics ::
  "env \<Rightarrow> world \<Rightarrow> string \<Rightarrow> window \<Rightarrow> (error + TokenMetricsResult) \<times> world" where
  "getTokenMetrics e w tm win =
     (let (validation, w1) = validateTokenMint e w tm
      in if \<not> isValid validation then (Inl (invalidMintError validation), w1)
         else (case getTokenInfo e w1 tm of
           (Inl err, w2) \<Rightarrow> (Inl err, w2)
         | (Inr info, w2) \<Rightarrow>
             (let currentPrice = getCurrentPrice e w2 tm;
                  (ratio, w3) = calculateConcentrationRatio e w2 tm
              in (case getTokenRugCheck e w3 tm of
                    (Inl err, w4) \<Rightarrow> (Inl err, w4)
                  | (Inr rugCheckData, w4) \<Rightarrow>
                      (Inr \<lparr> mrTokenMint = tm, mrName = tiName info, mrSymbol = tiSymbol info,
                              mrTotalSupply = tiTotalSupply info,
                              mrPriceUsd = or0 (map_option priceUsd currentPrice),
                              mrPriceInSol = or0 (map_option priceInSol currentPrice),
                              mrMarketCap = or0 (map_option marketCap currentPrice),
                              mrConcentrationRatio = ratio,
                              mrLastUpdated = now w4,
                              mrRugCheck = map_option toRugCheckOut rugCheckData \<rparr>, w4)))))"

section \<open>Concrete worlds and environments\<close>

definition emptyWorld :: world where
  "emptyWorld =
     \<lparr> now = 1000000, redis = (\<lambda>k. None), tokenPriceTable = (\<lambda>m. None),
       priceHistoryTable = [], nextHistoryId = 1, repeatableJobs = [], jobInsts = [],
       published = [], pollingJobsTotal = [] \<rparr>"

text \<open>A RugCheck report: a score of 10, not rugged, one risk of each level and a
  second dangerous one.\<close>

definition exampleRisk :: "string \<Rightarrow> Risk" where
  "exampleRisk lvl =
     \<lparr> riskName = ''risk'', riskValue = ''high'', riskDescription = ''a risk'',
       riskScore = 100, riskLevelTag = lvl \<rparr>"

definition exampleReport :: RugReport where
  "exampleReport =
     \<lparr> repMint = None, repScore = Some 10,
       repRisks = Some [exampleRisk ''danger'', exampleRisk ''info'', exampleRisk ''danger'',
                        exampleRisk ''warn''],
       repRugged = None, repPrice = None, repTotalHolders = None, repTransferFee = None \<rparr>"

text \<open>An environment in which every mint is a live token: the chain answers, the
  aggregator quotes 2 SOL, the database commits and the queue removes what it is asked
  to remove.\<close>

definition goodEnv :: env where
  "goodEnv =
     \<lparr> isPublicKey = (\<lambda>s. True),
       getAccountInfo = (\<lambda>m. Inr (Some TOKEN_PROGRAM_ID)),
       getTokenSupplyRpc = (\<lambda>m. Inr (Some (5000, 1))),
       dexTokenPrice = (\<lambda>m. Inr (Some 2)),
       poolPrice = (\<lambda>m. Inr 3),
       solPriceUsd = 100,
       tokenSupplyOf = (\<lambda>m. 500),
       dbAvailable = True,
       txOutcome = TxCommit,
       publishOk = True,
       removeRepeatableOutcome = (\<lambda>n. RRemoves),
       jobRemoveThrows = (\<lambda>j. False),
       largestAccounts = (\<lambda>m. Inr (Some [(''holderA'', Some 100), (''holderB'', Some 50)])),
       tokenMetadata = (\<lambda>m. Inr (Some ''Token'', Some ''TKN'')),
       rugCheckReport = (\<lambda>m. RugResponse (Some exampleReport)) \<rparr>"

text \<open>The same environment with the chain unreachable: \<^verbatim>\<open>getAccountInfo\<close> throws.\<close>

definition chainDownEnv :: env where
  "chainDownEnv = goodEnv\<lparr> getAccountInfo := (\<lambda>m. Inl (Error ''fetch failed'')) \<rparr>"

text \<open>The same environment with every price source failing.\<close>

definition noPriceEnv :: env where
  "noPriceEnv =
     goodEnv\<lparr> dexTokenPrice := (\<lambda>m. Inl (Error ''Request failed with status code 404'')),
              poolPrice := (\<lambda>m. Inl (Error ''No pool found'')) \<rparr>"

definition someMint :: string where
  "someMint = ''9yS8Bocd5geSqyY7hp9MeXmnfBNYw8nuw8rZFQeHEray''"

definition badMint :: string where
  "badMint = ''BAD''"

text \<open>A Raydium pair with liquidity 1000, volume 200 and 60 transactions.\<close>

definition raydiumPair :: DexScreenerPair where
  "raydiumPair =
     \<lparr> dexId = ''Raydium'', pairAddress = ''pairR'', baseAddress = someMint,
       quoteAddress = SOL_MINT, liquidityUsd = Some (ofInt 1000), volume24h = Some (ofInt 200),
       txnsBuys = Some (ofInt 30), txnsSells = Some (ofInt 30) \<rparr>"

text \<open>
  A pair of an unknown venue with liquidity 1025.1 and volume 102.51 (the doubles nearest
  to these), whose quotient rounds to a double just above 0.1; and one with liquidity 3.
\<close>

definition turnoverPair :: DexScreenerPair where
  "turnoverPair =
     (examplePair ''someswap'' ''pairT'')
       \<lparr> liquidityUsd := Some (Fin 2254218739266355 (- 41)),
         volume24h := Some (Fin 7213499965652337 (- 46)) \<rparr>"

definition threePair :: DexScreenerPair where
  "threePair = (examplePair ''someswap'' ''pairS'')\<lparr> liquidityUsd := Some (ofInt 3) \<rparr>"

text \<open>A pair with volume 200 and no liquidity figure.\<close>

definition noLiquidityPair :: DexScreenerPair where
  "noLiquidityPair = (examplePair ''someswap'' ''pairN'')\<lparr> volume24h := Some (ofInt 200) \<rparr>"

text \<open>The chain reports that the mint account does not exist.\<close>

definition goneEnv :: env where
  "goneEnv = goodEnv\<lparr> getAccountInfo := (\<lambda>m. Inr None) \<rparr>"

text \<open>A world in which \<open>someMint\<close> is tracked: one stored price, one history entry,
  its repeatable job, and a cache whose entries have all expired.\<close>

definition trackedWorld :: world where
  "trackedWorld =
     emptyWorld\<lparr>
       tokenPriceTable := [someMint \<mapsto> \<lparr> tpPriceUsd = 200, tpPriceInSol = 2,
                             tpMarketCap = 100000, tpTotalSupply = 500,
                             tpLastUpdated = 990000 \<rparr>],
       priceHistoryTable := [\<lparr> phId = 1, phTokenMint = someMint, phPriceUsd = 200,
                               phPriceInSol = 2, phMarketCap = 100000,
                               phTimestamp = 990000 \<rparr>],
       nextHistoryId := 2,
       repeatableJobs := [priceJob someMint] \<rparr>"

text \<open>An event is the error a client gets for an invalid mint.\<close>

fun isInvalidMintError :: "event \<Rightarrow> bool" where
  "isInvalidMintError (SubscriptionError tm msg (Some code)) = (code = ''INVALID_TOKEN_MINT'')"
| "isInvalidMintError ev = False"

text \<open>The events a call emitted to a socket, given the socket before and after.\<close>

definition newEvents :: "socket \<Rightarrow> socket \<Rightarrow> event list" where
  "newEvents s s' = drop (length (emitted s)) (emitted s')"

definition freshSocket :: socket where
  "freshSocket = \<lparr> subscriptions = Some [], rooms = [], emitted = [] \<rparr>"

text \<open>The tracked mint after \<^verbatim>\<open>removeTokenFromTracking\<close>: banned, its job and rows gone.\<close>

definition bannedWorld :: world where
  "bannedWorld = removeTokenFromTracking goodEnv trackedWorld someMint"

text \<open>The ban key of a mint is set and does not expire before the instant \<open>E\<close>.\<close>

definition banLastsUntil :: "world \<Rightarrow> string \<Rightarrow> int \<Rightarrow> bool" where
  "banLastsUntil w tm E =
     (case redis w (invalidKey tm) of
        None \<Rightarrow> False
      | Some (v, None) \<Rightarrow> True
      | Some (v, Some x) \<Rightarrow> E \<le> x)"

text \<open>
  What a committed update leaves in the two tables for a payload \<open>d\<close>: the latest row
  of the mint carries the four numbers of \<open>d\<close>, and one history row with the mint and the
  three prices of \<open>d\<close> is appended. Both rows get the database's own time stamp \<open>t\<close>.
\<close>

definition latestRowOf :: "TokenPriceData \<Rightarrow> int \<Rightarrow> TokenPriceRow" where
  "latestRowOf d t =
     \<lparr> tpPriceUsd = priceUsd d, tpPriceInSol = priceInSol d, tpMarketCap = marketCap d,
       tpTotalSupply = totalSupply d, tpLastUpdated = t \<rparr>"

definition historyRowOf :: "TokenPriceData \<Rightarrow> nat \<Rightarrow> int \<Rightarrow> PriceHistoryRow" where
  "historyRowOf d i t =
     \<lparr> phId = i, phTokenMint = tokenMint d, phPriceUsd = priceUsd d,
       phPriceInSol = priceInSol d, phMarketCap = marketCap d, phTimestamp = t \<rparr>"

definition bothWritten :: "TokenPriceData \<Rightarrow> world \<Rightarrow> world \<Rightarrow> bool" where
  "bothWritten d w w' =
     (tokenPriceTable w' = (tokenPriceTable w)(tokenMint d \<mapsto> latestRowOf d (now w))
      \<and> priceHistoryTable w'
          = priceHistoryTable w @ [historyRowOf d (nextHistoryId w) (now w)])"

definition neitherWritten :: "world \<Rightarrow> world \<Rightarrow> bool" where
  "neitherWritten w w' =
     (tokenPriceTable w' = tokenPriceTable w \<and> priceHistoryTable w' = priceHistoryTable w)"

definition purged :: "string \<Rightarrow> world \<Rightarrow> world \<Rightarrow> bool" where
  "purged tm w w' =
     (tokenPriceTable w' = (tokenPriceTable w)(tm := None)
      \<and> priceHistoryTable w' = filter (\<lambda>h. phTokenMint h \<noteq> tm) (priceHistoryTable w))"

text \<open>The snapshot of \<open>someMint\<close> in \<open>goodEnv\<close>: 2 SOL at 100 USD, supply 500.\<close>

definition examplePayload :: TokenPriceData where
  "examplePayload =
     \<lparr> tokenMint = someMint, priceUsd = 200, priceInSol = 2, marketCap = 100000,
       totalSupply = 500, timestamp = 1000000 \<rparr>"

text \<open>The query text of a window, and the rows of a mint that lie in a window.\<close>

fun windowText :: "window \<Rightarrow> string" where
  "windowText W1m = ''1m''"
| "windowText W5m = ''5m''"
| "windowText W1h = ''1h''"

text \<open>
  The length of a window as the specification names it, in milliseconds: one minute,
  five minutes, one hour. A stored row lies in the window of a mint when it is a row of
  that mint whose time stamp is at least \<open>now - window\<close>.
\<close>

fun specWindowLength :: "window \<Rightarrow> int" where
  "specWindowLength W1m = 60000"
| "specWindowLength W5m = 300000"
| "specWindowLength W1h = 3600000"

definition inWindow :: "world \<Rightarrow> string \<Rightarrow> window \<Rightarrow> PriceHistoryRow \<Rightarrow> bool" where
  "inWindow w mint win h =
     (phTokenMint h = mint \<and> phTimestamp h \<ge> now w - specWindowLength win)"

text \<open>
  A world with five history rows, stored in this order: two of \<open>someMint\<close> in the last
  minute, the later one first; one of another mint; one of \<open>someMint\<close> two minutes old;
  one of \<open>someMint\<close> fifteen minutes old.
\<close>

definition historyRow :: "nat \<Rightarrow> string \<Rightarrow> int \<Rightarrow> PriceHistoryRow" where
  "historyRow i tm t =
     \<lparr> phId = i, phTokenMint = tm, phPriceUsd = 200, phPriceInSol = 2, phMarketCap = 100000,
       phTimestamp = t \<rparr>"

definition historyWorld :: world where
  "historyWorld =
     emptyWorld\<lparr>
       priceHistoryTable :=
         [historyRow 1 someMint 990000, historyRow 2 someMint 950000,
          historyRow 3 SOL_MINT 995000, historyRow 4 someMint 880000,
          historyRow 5 someMint 100000],
       nextHistoryId := 6 \<rparr>"

definition historyEntry :: "int \<Rightarrow> HistoryEntry" where
  "historyEntry t =
     \<lparr> hePriceUsd = 200, hePriceInSol = 2, heMarketCap = 100000, heTimestamp = t \<rparr>"

text \<open>
  Every list of holders that the cache holds for a mint and a limit \<open>l \<ge> 0\<close> has at most
  \<open>l\<close> entries. \<^verbatim>\<open>getTopHolders\<close> is the only writer of these keys.
\<close>

definition holdersCacheOk :: "world \<Rightarrow> bool" where
  "holdersCacheOk w =
     (\<forall>tm l hs. 0 \<le> l \<longrightarrow>
        redis_get (redis w) (now w) (topHoldersKey tm l) = Some (RHolders hs) \<longrightarrow>
        length hs \<le> nat l)"

fun isJson200 :: "'a response \<Rightarrow> bool" where
  "isJson200 (Json200 b) = True"
| "isJson200 (Status400 msg) = False"






section \<open>Properties\<close>

subsection \<open>Evaluation of strings\<close>

lemmas str_eval = toLowerCase_def lowerChar_def someIncludes_def scoreIsLaunchpad_def

subsection \<open>Cache keys and frames\<close>

lemmas validate_eval = validateTokenMint_def validateAddressFormat_def validateOnChain_def
  checkSupply_def base58Regex_def base58Alphabet_def invalidResult_def validResult_def
  redis_get_def redis_setex_def validationKey_def SOL_MINT_def someMint_def
  TOKEN_PROGRAM_ID_def TOKEN_2022_PROGRAM_ID_def VALIDATION_CACHE_TTL_def

lemmas world_eval = emptyWorld_def trackedWorld_def goodEnv_def goneEnv_def chainDownEnv_def
  noPriceEnv_def

lemma key_neq [simp]:
  "invalidKey a \<noteq> validationKey b"
  "validationKey b \<noteq> invalidKey a"
  "invalidKey a \<noteq> priceCacheKey b"
  "priceCacheKey b \<noteq> invalidKey a"
  by (simp_all add: invalidKey_def validationKey_def priceCacheKey_def)

lemma key_inj [simp]:
  "(invalidKey a = invalidKey b) = (a = b)"
  "(validationKey a = validationKey b) = (a = b)"
  by (simp_all add: invalidKey_def validationKey_def)

lemma validateTokenMint_frame:
  "now (snd (validateTokenMint e w tm)) = now w"
  "tokenPriceTable (snd (validateTokenMint e w tm)) = tokenPriceTable w"
  "priceHistoryTable (snd (validateTokenMint e w tm)) = priceHistoryTable w"
  "nextHistoryId (snd (validateTokenMint e w tm)) = nextHistoryId w"
  "repeatableJobs (snd (validateTokenMint e w tm)) = repeatableJobs w"
  "jobInsts (snd (validateTokenMint e w tm)) = jobInsts w"
  "published (snd (validateTokenMint e w tm)) = published w"
  "pollingJobsTotal (snd (validateTokenMint e w tm)) = pollingJobsTotal w"
  by (simp_all add: validateTokenMint_def split: option.splits rvalue.splits)

lemma validateTokenMint_redis:
  "k \<noteq> validationKey tm \<Longrightarrow> redis (snd (validateTokenMint e w tm)) k = redis w k"
  by (simp add: validateTokenMint_def redis_setex_def split: option.splits rvalue.splits)

lemma isBanned_validateTokenMint:
  "isBanned (snd (validateTokenMint e w tm)) tm' = isBanned w tm'"
  by (simp add: isBanned_def redis_get_def validateTokenMint_redis validateTokenMint_frame)

lemma foldl_redis_del:
  "foldl redis_del r ks k = (if k \<in> set ks then None else r k)"
  by (induction ks arbitrary: r) (auto simp: redis_del_def)

lemma cleanupInvalidToken_redis:
  "redis (cleanupInvalidToken e w tm) k =
     (if dbAvailable e \<and> (k \<in> set (cleanupCacheKeys tm) \<or> prefix (''pool_address:'' @ tm @ '':'') k)
      then None else redis w k)"
  by (simp add: cleanupInvalidToken_def Let_def purgeTables_def redis_del_prefix_def
      foldl_redis_del)

lemma cleanupInvalidToken_frame:
  "now (cleanupInvalidToken e w tm) = now w"
  "repeatableJobs (cleanupInvalidToken e w tm) = repeatableJobs w"
  "jobInsts (cleanupInvalidToken e w tm) = jobInsts w"
  "published (cleanupInvalidToken e w tm) = published w"
  "pollingJobsTotal (cleanupInvalidToken e w tm) = pollingJobsTotal w"
  by (simp_all add: cleanupInvalidToken_def Let_def purgeTables_def)


lemma isBanned_cleanup:
  "\<not> isBanned w tm' \<Longrightarrow> \<not> isBanned (cleanupInvalidToken e w tm) tm'"
  by (simp add: isBanned_def redis_get_def cleanupInvalidToken_redis cleanupInvalidToken_frame)

lemma updateTokenPriceTry_invalid:
  assumes "\<not> isValid (fst (validateTokenMint e w tm))"
  shows "updateTokenPriceTry e w tm =
           (Inl (invalidMintError (fst (validateTokenMint e w tm))),
            cleanupInvalidToken e (snd (validateTokenMint e w tm)) tm)"
  using assms by (simp add: updateTokenPriceTry_def split_beta)

subsection \<open>An invalid mint seen by the worker\<close>

text \<open>
  C1, on the code. When validation finds the polled mint invalid, the body of
  \<^verbatim>\<open>updateTokenPrice\<close> purges the mint and throws \<open>Invalid token mint\<close>, but the function's own
  \<^verbatim>\<open>catch\<close> logs the error and returns normally. The worker therefore sees a successful
  update: it completes the tick and counts it as \<open>success\<close>, it does not run
  \<^verbatim>\<open>removeTokenFromTracking\<close>, the ban key stays unset and the repeatable job stays in the
  queue.
\<close>

theorem worker_swallows_invalid_mint:
  assumes nb: "\<not> isBanned w tm"
    and inv: "\<not> isValid (fst (validateTokenMint e w tm))"
  shows "fst (updateTokenPriceTry e w tm) = Inl (invalidMintError (fst (validateTokenMint e w tm)))
       \<and> fst (updateTokenPrice e w tm) = Inr ()
       \<and> fst (worker e w tm) = Inr ()
       \<and> pollingJobsTotal (snd (worker e w tm)) = pollingJobsTotal w @ [(tm, ''success'')]
       \<and> repeatableJobs (snd (worker e w tm)) = repeatableJobs w
       \<and> \<not> isBanned (snd (worker e w tm)) tm"
proof -
  let ?w1 = "cleanupInvalidToken e (snd (validateTokenMint e w tm)) tm"
  have body: "updateTokenPriceTry e w tm =
      (Inl (invalidMintError (fst (validateTokenMint e w tm))), ?w1)"
    using inv by (rule updateTokenPriceTry_invalid)
  have upd: "updateTokenPrice e w tm = (Inr (), ?w1)"
    by (simp add: updateTokenPrice_def body)
  have wk: "worker e w tm = (Inr (), incPolling tm ''success'' ?w1)"
    using nb by (simp add: worker_def upd)
  have nb1: "\<not> isBanned ?w1 tm"
    using nb by (simp add: isBanned_cleanup isBanned_validateTokenMint)
  have nb2: "\<not> isBanned (incPolling tm ''success'' ?w1) tm"
    using nb1 by (simp add: isBanned_def incPolling_def)
  show ?thesis
    using nb2
    by (simp add: body upd wk incPolling_def cleanupInvalidToken_frame validateTokenMint_frame)
qed

theorem worker_swallows_invalid_mint_witness:
  "\<not> isBanned trackedWorld someMint
   \<and> \<not> isValid (fst (validateTokenMint goneEnv trackedWorld someMint))
   \<and> fst (worker goneEnv trackedWorld someMint) = Inr ()
   \<and> pollingJobsTotal (snd (worker goneEnv trackedWorld someMint)) = [(someMint, ''success'')]
   \<and> repeatableJobs (snd (worker goneEnv trackedWorld someMint)) = [priceJob someMint]
   \<and> \<not> isBanned (snd (worker goneEnv trackedWorld someMint)) someMint"
proof -
  have a: "\<not> isBanned trackedWorld someMint"
    by (simp add: isBanned_def redis_get_def world_eval)
  have b: "\<not> isValid (fst (validateTokenMint goneEnv trackedWorld someMint))"
    by (simp add: validate_eval world_eval)
  show ?thesis
    using a b worker_swallows_invalid_mint [OF a b]
    by (simp add: trackedWorld_def emptyWorld_def)
qed

subsection \<open>The score of a pair\<close>

lemmas dbl_eval = roundNearestEven_def finish_def ofInt_def bonus_def infOf_def
  divideFinite_def divShift_def stickyQuotient_def lit01_def lit03_def lit04_def Let_def bitLength.simps normalise.simps

text \<open>The three literals are the doubles nearest to 0.3, 0.4 and 0.1: each lies within
  half a unit of its last place.\<close>

lemma literals_nearest:
  "\<bar>finValue 5404319552844595 (- 54) - 3 / 10\<bar> \<le> 1 / 2 ^ 55"
  "\<bar>finValue 3602879701896397 (- 53) - 4 / 10\<bar> \<le> 1 / 2 ^ 54"
  "\<bar>finValue 3602879701896397 (- 55) - 1 / 10\<bar> \<le> 1 / 2 ^ 57"
  by (simp_all add: finValue_def)

text \<open>The score with its intermediate names expanded.\<close>

lemma calculatePairScore_expand:
  "calculatePairScore pair =
     fadd (fadd (fadd (fadd (fadd (fadd
       (fmul (orZero (liquidityUsd pair)) lit03)
       (fmul (orZero (volume24h pair)) lit04))
       (fmul (fmul (fadd (orZero (txnsBuys pair)) (orZero (txnsSells pair))) (ofInt 200)) lit03))
       (if someIncludes scoreEstablishedDexes (dexId pair) then ofInt 50000 else ofInt 0))
       (if scoreIsLaunchpad pair
        then (if fgt (orZero (volume24h pair)) (ofInt 100000)
              then ofInt (- 10000) else ofInt (- 100000))
        else ofInt 0))
       (if fgt (if fgt (orZero (liquidityUsd pair)) (ofInt 0)
                then fdiv (orZero (volume24h pair)) (orZero (liquidityUsd pair))
                else ofInt 0) lit01
        then ofInt 15000 else ofInt 0))
       (if fgt (fadd (orZero (txnsBuys pair)) (orZero (txnsSells pair))) (ofInt 50)
        then ofInt 5000 else ofInt 0)"
  by (simp only: calculatePairScore_def Let_def)

text \<open>
  C8, as the code has it. In double arithmetic, summed from left to right, the score of a
  pair is \<open>liquidity\<cdot>0.3 + volume24h\<cdot>0.4 + (txnCount24h\<cdot>200)\<cdot>0.3 + 50000\<cdot>[venue established]
  + penalty + 15000\<cdot>[liquidity > 0 and volume/liquidity > 0.1] + 5000\<cdot>[txnCount24h > 50]\<close>,
  where a venue is established when its lower-cased id contains one of \<open>raydium\<close>,
  \<open>orca\<close>, \<open>jupiter\<close> (not \<open>meteora\<close>), and the penalty, which is added, is \<open>-10000\<close> for a
  launch-like pair with volume above 100000, \<open>-100000\<close> for any other launch-like pair and
  0 otherwise.
\<close>

theorem calculatePairScore_formula:
  "calculatePairScore pair =
     fadd (fadd (fadd (fadd (fadd (fadd
       (fmul (orZero (liquidityUsd pair)) lit03)
       (fmul (orZero (volume24h pair)) lit04))
       (fmul (fmul (fadd (orZero (txnsBuys pair)) (orZero (txnsSells pair))) (ofInt 200)) lit03))
       (bonus 50000 (someIncludes [''raydium'', ''orca'', ''jupiter''] (dexId pair))))
       (if scoreIsLaunchpad pair \<and> fgt (orZero (volume24h pair)) (ofInt 100000)
          then ofInt (- 10000)
        else if scoreIsLaunchpad pair then ofInt (- 100000) else ofInt 0))
       (bonus 15000 (fgt (orZero (liquidityUsd pair)) (ofInt 0)
                     \<and> fgt (fdiv (orZero (volume24h pair)) (orZero (liquidityUsd pair))) lit01)))
       (bonus 5000 (fgt (fadd (orZero (txnsBuys pair)) (orZero (txnsSells pair))) (ofInt 50)))"
proof -
  have r: "fgt (if c then x else ofInt 0) lit01 = (c \<and> fgt x lit01)" for c x
    by (simp add: dbl_eval)
  show ?thesis
    by (simp add: calculatePairScore_def Let_def scoreEstablishedDexes_def bonus_def r)
qed

text \<open>
  The formula at three pairs: a Raydium pair scoring 73980; a pair with liquidity 3,
  whose score is the double \<open>0.8999999999999999\<close> and not \<open>0.9\<close>; and a pair whose
  turnover \<open>102.51 / 1025.1\<close> rounds above \<open>0.1\<close> and earns the 15000, for a score of
  \<open>15348.534\<close>.
\<close>

theorem calculatePairScore_formula_witness:
  "calculatePairScore raydiumPair = ofInt 73980
   \<and> calculatePairScore threePair = Fin 2026619832316723 (- 51)
   \<and> calculatePairScore turnoverPair = Fin 1054743225144705 (- 36)"
  using calculatePairScore_formula [of raydiumPair] calculatePairScore_formula [of threePair]
    calculatePairScore_formula [of turnoverPair]
  by (simp add: raydiumPair_def threePair_def turnoverPair_def examplePair_def str_eval dbl_eval)

text \<open>
  C8, as the specification words it, fails: a Meteora pair gets no venue bonus, the
  penalty of a launch-like pair lowers the score instead of raising it, and a pair with
  volume but no liquidity figure gets no turnover bonus.
\<close>

theorem calculatePairScore_spec_counterexample:
  "calculatePairScore (examplePair ''meteora'' ''pairA'') = ofInt 0
   \<and> specPairScore (examplePair ''meteora'' ''pairA'') = ofInt 50000
   \<and> calculatePairScore (examplePair ''pumpfun'' ''pairB'') = ofInt (- 100000)
   \<and> specPairScore (examplePair ''pumpfun'' ''pairB'') = ofInt 100000
   \<and> calculatePairScore noLiquidityPair = ofInt 80
   \<and> specPairScore noLiquidityPair = ofInt 15080"
  by (simp add: calculatePairScore_expand specPairScore_def specPenalty_def examplePair_def
      noLiquidityPair_def scoreEstablishedDexes_def specEstablishedDexes_def str_eval dbl_eval)

subsection \<open>The comprehensive metrics\<close>

text \<open>
  C10. \<^verbatim>\<open>getTokenMetrics\<close> does not read its window: on the same mint, world and
  environment, two windows give the same result and leave the same world.
\<close>

theorem getTokenMetrics_ignores_window:
  "getTokenMetrics e w tm win1 = getTokenMetrics e w tm win2"
  by (simp add: getTokenMetrics_def)

subsection \<open>The native-price dispatch\<close>

lemmas price_eval = getTokenPriceInSolOptimized_def priceInSolTry_def dexScreenerPrice_def
  rpcPoolPrice_def freshCachedPrice_def priceCacheKey_def cachePrice_def

text \<open>
  C7, as the code has it. \<^verbatim>\<open>getTokenPriceInSolOptimized\<close> returns 1 for the native mint;
  otherwise, when its five-second cache holds no fresh price, it returns the aggregator's
  \<^verbatim>\<open>priceInSol\<close> when that is greater than 0; otherwise the price read from an on-chain
  pool when that is greater than 0; and when every source fails, the error
  \<open>All pricing methods failed\<close> thrown inside is caught by the function itself, which
  returns the price 0.
\<close>

theorem getTokenPriceInSolOptimized_dispatch:
  "(tm = SOL_MINT \<longrightarrow> fst (getTokenPriceInSolOptimized e w tm) = 1)
   \<and> (tm \<noteq> SOL_MINT \<and> freshCachedPrice w tm = None
        \<and> dexTokenPrice e tm = Inr (Some p) \<and> p > 0
      \<longrightarrow> fst (getTokenPriceInSolOptimized e w tm) = p)
   \<and> (tm \<noteq> SOL_MINT \<and> freshCachedPrice w tm = None
        \<and> dexScreenerPrice e tm = None \<and> poolPrice e tm = Inr q \<and> q > 0
      \<longrightarrow> fst (getTokenPriceInSolOptimized e w tm) = q)
   \<and> (tm \<noteq> SOL_MINT \<and> freshCachedPrice w tm = None
        \<and> dexScreenerPrice e tm = None \<and> rpcPoolPrice e tm = None
      \<longrightarrow> priceInSolTry e w tm = (Inl (Error ''All pricing methods failed''), w)
          \<and> getTokenPriceInSolOptimized e w tm = (0, w))"
  by (simp add: getTokenPriceInSolOptimized_def priceInSolTry_def dexScreenerPrice_def
      rpcPoolPrice_def)

theorem getTokenPriceInSolOptimized_dispatch_witness:
  "fst (getTokenPriceInSolOptimized goodEnv emptyWorld SOL_MINT) = 1
   \<and> fst (getTokenPriceInSolOptimized goodEnv emptyWorld someMint) = 2
   \<and> fst (getTokenPriceInSolOptimized
             (goodEnv\<lparr> dexTokenPrice := (\<lambda>m. Inr None) \<rparr>) emptyWorld someMint) = 3
   \<and> getTokenPriceInSolOptimized noPriceEnv emptyWorld someMint = (0, emptyWorld)"
proof -
  have c: "someMint \<noteq> SOL_MINT \<and> freshCachedPrice emptyWorld someMint = None"
    by (simp add: someMint_def SOL_MINT_def freshCachedPrice_def redis_get_def emptyWorld_def)
  have d1: "dexTokenPrice goodEnv someMint = Inr (Some 2) \<and> (2::num) > 0"
    by (simp add: goodEnv_def)
  have d2: "dexScreenerPrice (goodEnv\<lparr> dexTokenPrice := (\<lambda>m. Inr None) \<rparr>) someMint = None
     \<and> poolPrice (goodEnv\<lparr> dexTokenPrice := (\<lambda>m. Inr None) \<rparr>) someMint = Inr 3
     \<and> (3::num) > 0"
    by (simp add: goodEnv_def dexScreenerPrice_def)
  have d3: "dexScreenerPrice noPriceEnv someMint = None \<and> rpcPoolPrice noPriceEnv someMint = None"
    by (simp add: noPriceEnv_def goodEnv_def dexScreenerPrice_def rpcPoolPrice_def)
  show ?thesis
    using c d1 d2 d3
      getTokenPriceInSolOptimized_dispatch [of SOL_MINT goodEnv emptyWorld 0 0]
      getTokenPriceInSolOptimized_dispatch [of someMint goodEnv emptyWorld 2 0]
      getTokenPriceInSolOptimized_dispatch
        [of someMint "goodEnv\<lparr> dexTokenPrice := (\<lambda>m. Inr None) \<rparr>" emptyWorld 0 3]
      getTokenPriceInSolOptimized_dispatch [of someMint noPriceEnv emptyWorld 0 0]
    by simp
qed

text \<open>
  C7, as the specification words it, fails: with the aggregator and the pool both
  failing, the dispatch does not fail but yields 0, and \<^verbatim>\<open>getTokenPrice\<close> goes on to
  build a snapshot whose native price is 0.
\<close>

theorem getTokenPriceInSolOptimized_all_fail_counterexample:
  "fst (priceInSolTry noPriceEnv emptyWorld someMint) = Inl (Error ''All pricing methods failed'')
   \<and> fst (getTokenPriceInSolOptimized noPriceEnv emptyWorld someMint) = 0
   \<and> map_sum message priceInSol (fst (getTokenPrice noPriceEnv emptyWorld someMint)) = Inr 0"
  by (simp add: price_eval getTokenPrice_def validate_eval world_eval split_beta)

subsection \<open>Bans, enrolment and validation: frames\<close>

lemma obliterateTokenJobs_frame:
  "now (obliterateTokenJobs e w tm) = now w"
  "redis (obliterateTokenJobs e w tm) = redis w"
  "tokenPriceTable (obliterateTokenJobs e w tm) = tokenPriceTable w"
  "priceHistoryTable (obliterateTokenJobs e w tm) = priceHistoryTable w"
  "published (obliterateTokenJobs e w tm) = published w"
  "pollingJobsTotal (obliterateTokenJobs e w tm) = pollingJobsTotal w"
  by (simp_all add: obliterateTokenJobs_def Let_def)

lemma setBan_frame:
  "now (setBan w tm) = now w"
  "tokenPriceTable (setBan w tm) = tokenPriceTable w"
  "priceHistoryTable (setBan w tm) = priceHistoryTable w"
  "repeatableJobs (setBan w tm) = repeatableJobs w"
  "jobInsts (setBan w tm) = jobInsts w"
  "published (setBan w tm) = published w"
  by (simp_all add: setBan_def)


lemma removeTokenFromTracking_frame:
  "now (removeTokenFromTracking e w tm) = now w"
  "redis (removeTokenFromTracking e w tm) = redis (setBan w tm)"
  "published (removeTokenFromTracking e w tm) = published w"
  by (simp_all add: removeTokenFromTracking_def Let_def purgeTables_def obliterateTokenJobs_frame
      setBan_frame)

lemma ban_lasts:
  assumes "0 \<le> dt" "dt < 86400000"
  shows "isBanned ((removeTokenFromTracking e w tm)\<lparr> now := now w + dt \<rparr>) tm"
  using assms
  by (simp add: isBanned_def redis_get_def removeTokenFromTracking_frame setBan_def
      redis_setex_def)

lemma addTokenForTracking_banned:
  assumes "isBanned w tm"
  shows "repeatableJobs (addTokenForTracking e w tm) = repeatableJobs w"
  using assms
  by (simp add: addTokenForTracking_def split_beta Let_def setBan_frame
      validateTokenMint_frame isBanned_validateTokenMint)





lemma subscribe_error_iff:
  "list_ex isInvalidMintError (newEvents s (fst (subscribeToToken e (s, w) tm)))
     = (\<not> isValid (fst (validateTokenMint e w tm)))"
  by (auto simp: subscribeToToken_def newEvents_def emit_def split_beta
      split: option.splits sum.splits prod.splits)

subsection \<open>The ban key through a history of the scheduler\<close>

lemma cleanup_keeps_ban:
  "redis (cleanupInvalidToken e w tm) (invalidKey a) = redis w (invalidKey a)"
  by (simp add: cleanupInvalidToken_redis cleanupCacheKeys_def invalidKey_def validationKey_def)

lemma priceInSol_keeps:
  "now (snd (getTokenPriceInSolOptimized e w tm)) = now w"
  "redis (snd (getTokenPriceInSolOptimized e w tm)) (invalidKey a) = redis w (invalidKey a)"
  "repeatableJobs (snd (getTokenPriceInSolOptimized e w tm)) = repeatableJobs w"
  by (simp_all add: getTokenPriceInSolOptimized_def priceInSolTry_def cachePrice_def
      redis_setex_def split: option.splits)

lemma getTokenPrice_keeps:
  "now (snd (getTokenPrice e w tm)) = now w"
  "redis (snd (getTokenPrice e w tm)) (invalidKey a) = redis w (invalidKey a)"
  "repeatableJobs (snd (getTokenPrice e w tm)) = repeatableJobs w"
  by (simp_all add: getTokenPrice_def split_beta Let_def priceInSol_keeps
      validateTokenMint_frame validateTokenMint_redis)

lemma transaction_keeps:
  "now (snd (prismaTransaction oc (upsertTokenPrice d) (createPriceHistory d) w)) = now w"
  "redis (snd (prismaTransaction oc (upsertTokenPrice d) (createPriceHistory d) w)) = redis w"
  "repeatableJobs (snd (prismaTransaction oc (upsertTokenPrice d) (createPriceHistory d) w))
     = repeatableJobs w"
  by (simp_all add: prismaTransaction_def upsertTokenPrice_def createPriceHistory_def
      split: tx_outcome.splits)

lemma updateTokenPrice_keeps:
  "now (snd (updateTokenPrice e w tm)) = now w"
  "redis (snd (updateTokenPrice e w tm)) (invalidKey a) = redis w (invalidKey a)"
  "repeatableJobs (snd (updateTokenPrice e w tm)) = repeatableJobs w"
  by (simp_all add: updateTokenPrice_def updateTokenPriceTry_def split_beta Let_def
      cleanupInvalidToken_frame cleanup_keeps_ban validateTokenMint_frame validateTokenMint_redis
      getTokenPrice_keeps transaction_keeps publishPriceUpdate_def
      split: sum.splits prod.splits)


lemma banLastsUntil_isBanned:
  "banLastsUntil w tm E \<Longrightarrow> now w < E \<Longrightarrow> isBanned w tm"
  by (auto simp: banLastsUntil_def isBanned_def redis_get_def split: option.splits)

lemma banLastsUntil_cong:
  "redis w' (invalidKey tm) = redis w (invalidKey tm) \<Longrightarrow>
     banLastsUntil w' tm E = banLastsUntil w tm E"
  by (simp add: banLastsUntil_def)

lemma banLastsUntil_setBan:
  assumes "banLastsUntil w tm E" "E \<le> now w + 86400000"
  shows "banLastsUntil (setBan w m) tm E"
  using assms
  by (auto simp: banLastsUntil_def setBan_def redis_setex_def split: option.splits)

lemma banLastsUntil_remove:
  assumes "banLastsUntil w tm E" "E \<le> now w + 86400000"
  shows "banLastsUntil (removeTokenFromTracking e w m) tm E"
  using banLastsUntil_setBan [OF assms, of m]
  by (simp add: banLastsUntil_def removeTokenFromTracking_frame)

lemma banLastsUntil_enrol:
  assumes "banLastsUntil w tm E" "E \<le> now w + 86400000"
  shows "banLastsUntil (addTokenForTracking e w m) tm E"
proof -
  let ?w1 = "snd (validateTokenMint e w m)"
  have b1: "banLastsUntil ?w1 tm E"
    using assms(1) by (simp add: banLastsUntil_def validateTokenMint_redis)
  have n1: "E \<le> now ?w1 + 86400000"
    using assms(2) by (simp add: validateTokenMint_frame)
  show ?thesis
    using b1 banLastsUntil_setBan [OF b1 n1, of m]
    by (simp add: addTokenForTracking_def split_beta Let_def banLastsUntil_def
        obliterateTokenJobs_frame)
qed

lemma now_enrol: "now (addTokenForTracking e w m) = now w"
  by (simp add: addTokenForTracking_def split_beta Let_def setBan_frame validateTokenMint_frame
      obliterateTokenJobs_frame)

lemma updateTokenPrice_returns:
  "updateTokenPrice e w tm = (Inr (), snd (updateTokenPriceTry e w tm))"
  by (simp add: updateTokenPrice_def split: prod.splits sum.splits)

lemma worker_not_banned:
  "\<not> isBanned w m \<Longrightarrow>
     worker e w m = (Inr (), incPolling m ''success'' (snd (updateTokenPrice e w m)))"
  by (simp add: worker_def updateTokenPrice_returns)

lemma banLastsUntil_worker:
  assumes "banLastsUntil w tm E" "E \<le> now w + 86400000"
  shows "banLastsUntil (snd (worker e w m)) tm E"
proof (cases "isBanned w m")
  case True
  then show ?thesis
    using banLastsUntil_remove [OF assms, of e m] by (simp add: worker_def)
next
  case False
  from worker_not_banned [OF False]
  show ?thesis
    using assms(1) by (simp add: banLastsUntil_def incPolling_def updateTokenPrice_keeps)
qed

lemma now_worker: "now (snd (worker e w m)) = now w"
proof (cases "isBanned w m")
  case True
  then show ?thesis by (simp add: worker_def removeTokenFromTracking_frame)
next
  case False
  then show ?thesis
    by (simp add: worker_not_banned incPolling_def updateTokenPrice_keeps)
qed

lemma banLastsUntil_step:
  assumes "banLastsUntil w tm E" "E \<le> now w + 86400000"
  shows "banLastsUntil (sched_step w op) tm E \<and> E \<le> now (sched_step w op) + 86400000"
proof (cases op)
  case (Enrol e m)
  then show ?thesis using banLastsUntil_enrol [OF assms] assms(2) by (simp add: now_enrol)
next
  case (BanAndRemove e m)
  then show ?thesis
    using banLastsUntil_remove [OF assms] assms(2) by (simp add: removeTokenFromTracking_frame)
next
  case (Tick e m)
  then show ?thesis using banLastsUntil_worker [OF assms] assms(2) by (simp add: now_worker)
next
  case (Wait ms)
  then show ?thesis using assms by (simp add: banLastsUntil_def)
qed

lemma banLastsUntil_run:
  assumes "banLastsUntil w tm E" "E \<le> now w + 86400000"
  shows "banLastsUntil (sched_run w ops) tm E"
  using assms unfolding sched_run_def
proof (induction ops arbitrary: w)
  case Nil
  then show ?case by simp
next
  case (Cons op ops)
  from banLastsUntil_step [OF Cons.prems, of op]
  show ?case by (simp add: Cons.IH)
qed

lemma banLastsUntil_after_remove:
  "banLastsUntil (removeTokenFromTracking e w tm) tm (now w + 86400000)"
  by (simp add: banLastsUntil_def removeTokenFromTracking_frame setBan_def redis_setex_def)

subsection \<open>Subscriptions and validation\<close>

lemma validateTokenMint_idem:
  "validateTokenMint e (snd (validateTokenMint e w tm)) tm
     = (fst (validateTokenMint e w tm), snd (validateTokenMint e w tm))"
  by (simp add: validateTokenMint_def redis_get_def redis_setex_def VALIDATION_CACHE_TTL_def
      split: option.splits rvalue.splits)

lemma getTokenPrice_valid:
  "isValid (fst (validateTokenMint e w tm)) \<Longrightarrow> \<exists>d. fst (getTokenPrice e w tm) = Inr d"
  by (simp add: getTokenPrice_def split_beta Let_def)

lemma discoverToken_valid:
  assumes "isValid (fst (validateTokenMint e w tm))"
  shows "\<exists>d. fst (discoverToken e (snd (validateTokenMint e w tm)) tm) = Inr d"
proof -
  have "isValid (fst (validateTokenMint e (snd (validateTokenMint e w tm)) tm))"
    using assms by (simp add: validateTokenMint_idem)
  from getTokenPrice_valid [OF this]
  show ?thesis
    by (auto simp: discoverToken_def split: option.splits prod.splits sum.splits)
qed

lemma subscribe_valid:
  assumes "isValid (fst (validateTokenMint e w tm))"
    and "subscriptions s = Some subs" and "tm \<notin> set subs"
  shows "\<exists>d. emitted (fst (subscribeToToken e (s, w) tm))
               = emitted s @ [PriceUpdateEvent d, SubscriptionSuccess tm (Suc (length subs))]"
  using assms discoverToken_valid [OF assms(1)]
  by (auto simp: subscribeToToken_def split_beta emit_def split: prod.splits sum.splits)

lemma trackedWorld_facts:
  "now trackedWorld = 1000000"
  "redis trackedWorld = (\<lambda>k. None)"
  by (simp_all add: world_eval)

lemma bannedWorld_valid:
  "isValid (fst (validateTokenMint goodEnv bannedWorld someMint))"
  by (simp add: bannedWorld_def validateTokenMint_def validateAddressFormat_def
      validateOnChain_def checkSupply_def base58Regex_def base58Alphabet_def validResult_def
      invalidResult_def removeTokenFromTracking_frame setBan_def redis_get_def redis_setex_def
      trackedWorld_facts validationKey_def invalidKey_def SOL_MINT_def someMint_def goodEnv_def
      TOKEN_PROGRAM_ID_def)

subsection \<open>Ban durability\<close>

text \<open>
  C4, as the code has it. \<^verbatim>\<open>removeTokenFromTracking\<close> sets the ban key for 24 hours. Through
  any later history of enrolments, bans, worker ticks (for any mints) and waiting, as long
  as fewer than 24 hours have passed the mint is still banned and \<^verbatim>\<open>addTokenForTracking\<close>
  leaves the repeatable jobs as they are. \<^verbatim>\<open>subscribeToToken\<close> does not read the ban key: a
  subscription attempt yields a \<^verbatim>\<open>subscription_error\<close> with code \<open>INVALID_TOKEN_MINT\<close> exactly
  when validation finds the mint invalid.
\<close>

theorem ban_blocks_enrol_until_ttl:
  assumes run: "w2 = sched_run (removeTokenFromTracking e0 w tm) ops"
    and early: "now w2 < now w + 86400000"
  shows "isBanned w2 tm
       \<and> repeatableJobs (addTokenForTracking e w2 tm) = repeatableJobs w2
       \<and> list_ex isInvalidMintError (newEvents s (fst (subscribeToToken e (s, w2) tm)))
           = (\<not> isValid (fst (validateTokenMint e w2 tm)))"
proof -
  have "banLastsUntil w2 tm (now w + 86400000)"
    unfolding run
    by (rule banLastsUntil_run [OF banLastsUntil_after_remove])
       (simp add: removeTokenFromTracking_frame)
  then have b: "isBanned w2 tm"
    using early by (rule banLastsUntil_isBanned)
  show ?thesis
    using b addTokenForTracking_banned [OF b] subscribe_error_iff by simp
qed

theorem ban_blocks_enrol_until_ttl_witness:
  "now (sched_run bannedWorld [Wait 3600000]) < now trackedWorld + 86400000
   \<and> isBanned (sched_run bannedWorld [Wait 3600000]) someMint
   \<and> repeatableJobs (addTokenForTracking goodEnv (sched_run bannedWorld [Wait 3600000]) someMint)
       = repeatableJobs (sched_run bannedWorld [Wait 3600000])
   \<and> list_ex isInvalidMintError
        (newEvents freshSocket
           (fst (subscribeToToken goodEnv
                   (freshSocket, sched_run bannedWorld [Wait 3600000]) someMint)))
       = (\<not> isValid (fst (validateTokenMint goodEnv
                              (sched_run bannedWorld [Wait 3600000]) someMint)))"
proof -
  have r: "sched_run bannedWorld [Wait 3600000]
             = sched_run (removeTokenFromTracking goodEnv trackedWorld someMint) [Wait 3600000]"
    by (simp add: bannedWorld_def)
  have t: "now (sched_run bannedWorld [Wait 3600000]) < now trackedWorld + 86400000"
    by (simp add: sched_run_def bannedWorld_def removeTokenFromTracking_frame trackedWorld_facts)
  show ?thesis
    using t ban_blocks_enrol_until_ttl [OF r t, of goodEnv freshSocket] by simp
qed

text \<open>
  C4, as the specification words it, fails: a banned mint that the chain validates is
  subscribed to without any \<open>INVALID_TOKEN_MINT\<close> error.
\<close>

theorem subscription_during_ban_counterexample:
  "isBanned bannedWorld someMint
   \<and> \<not> list_ex isInvalidMintError
        (newEvents freshSocket (fst (subscribeToToken goodEnv (freshSocket, bannedWorld) someMint)))
   \<and> last (emitted (fst (subscribeToToken goodEnv (freshSocket, bannedWorld) someMint)))
       = SubscriptionSuccess someMint 1"
proof -
  have b: "isBanned bannedWorld someMint"
    unfolding bannedWorld_def
    by (rule banLastsUntil_isBanned [OF banLastsUntil_after_remove])
       (simp add: removeTokenFromTracking_frame)
  have s: "subscriptions freshSocket = Some []" "someMint \<notin> set []"
    by (simp_all add: freshSocket_def)
  from subscribe_valid [OF bannedWorld_valid s]
  have l: "last (emitted (fst (subscribeToToken goodEnv (freshSocket, bannedWorld) someMint)))
       = SubscriptionSuccess someMint 1"
    by auto
  show ?thesis
    using b l bannedWorld_valid by (simp add: subscribe_error_iff)
qed

subsection \<open>A chain failure during validation\<close>








subsection \<open>Persist, then publish\<close>

lemma priceInSol_tables:
  "tokenPriceTable (snd (getTokenPriceInSolOptimized e w tm)) = tokenPriceTable w"
  "priceHistoryTable (snd (getTokenPriceInSolOptimized e w tm)) = priceHistoryTable w"
  "nextHistoryId (snd (getTokenPriceInSolOptimized e w tm)) = nextHistoryId w"
  "published (snd (getTokenPriceInSolOptimized e w tm)) = published w"
  by (simp_all add: getTokenPriceInSolOptimized_def priceInSolTry_def cachePrice_def
      split: option.splits)

lemma getTokenPrice_tables:
  "tokenPriceTable (snd (getTokenPrice e w tm)) = tokenPriceTable w"
  "priceHistoryTable (snd (getTokenPrice e w tm)) = priceHistoryTable w"
  "nextHistoryId (snd (getTokenPrice e w tm)) = nextHistoryId w"
  "published (snd (getTokenPrice e w tm)) = published w"
  by (simp_all add: getTokenPrice_def split_beta Let_def priceInSol_tables
      validateTokenMint_frame)

lemma getTokenPrice_mint:
  "fst (getTokenPrice e w tm) = Inr d \<Longrightarrow> tokenMint d = tm"
  by (auto simp: getTokenPrice_def split_beta Let_def split: if_splits)

lemma updateTokenPriceTry_valid:
  assumes "isValid (fst (validateTokenMint e w tm))"
  shows "updateTokenPriceTry e w tm =
     (case getTokenPrice e (snd (validateTokenMint e w tm)) tm of
        (Inl err, w2) \<Rightarrow> (Inl err, w2)
      | (Inr d, w2) \<Rightarrow>
          (case prismaTransaction (txOutcome e) (upsertTokenPrice d) (createPriceHistory d) w2 of
             (Inl err, w3) \<Rightarrow> (Inl err, w3)
           | (Inr u, w3) \<Rightarrow> (Inr (), publishPriceUpdate e d w3)))"
  using assms by (simp add: updateTokenPriceTry_def split_beta)

lemma commit_bothWritten:
  assumes "tokenPriceTable w2 = tokenPriceTable w" "priceHistoryTable w2 = priceHistoryTable w"
    "nextHistoryId w2 = nextHistoryId w" "now w2 = now w"
  shows "bothWritten d w (publishPriceUpdate e d (createPriceHistory d (upsertTokenPrice d w2)))"
  using assms
  by (simp add: bothWritten_def publishPriceUpdate_def createPriceHistory_def
      upsertTokenPrice_def latestRowOf_def historyRowOf_def)

lemma commit_published:
  "published (publishPriceUpdate e d (createPriceHistory d (upsertTokenPrice d w2)))
     = (if publishOk e then published w2 @ [d] else published w2)"
  by (simp add: publishPriceUpdate_def createPriceHistory_def upsertTokenPrice_def)

lemma priceKey_neq [simp]:
  "priceCacheKey a \<noteq> validationKey b"
  "validationKey b \<noteq> priceCacheKey a"
  by (simp_all add: validationKey_def priceCacheKey_def)

lemma freshCachedPrice_validate:
  "freshCachedPrice (snd (validateTokenMint e w tm)) m = freshCachedPrice w m"
  by (simp add: freshCachedPrice_def redis_get_def validateTokenMint_redis
      validateTokenMint_frame cong: option.case_cong rvalue.case_cong)

lemma getTokenPrice_dex:
  assumes "isValid (fst (validateTokenMint e w tm))" "tm \<noteq> SOL_MINT"
    and "freshCachedPrice w tm = None" "dexTokenPrice e tm = Inr (Some p)" "p > 0"
  shows "fst (getTokenPrice e w tm) =
           Inr \<lparr> tokenMint = tm, priceUsd = p * solPriceUsd e, priceInSol = p,
                  marketCap = p * solPriceUsd e * tokenSupplyOf e tm,
                  totalSupply = tokenSupplyOf e tm, timestamp = now w \<rparr>"
  using assms
  by (simp add: getTokenPrice_def split_beta Let_def getTokenPriceInSolOptimized_def
      priceInSolTry_def dexScreenerPrice_def freshCachedPrice_validate cachePrice_def
      validateTokenMint_frame)

lemma goodEnv_valid_empty:
  "isValid (fst (validateTokenMint goodEnv emptyWorld someMint))"
  by (simp add: validate_eval world_eval)

lemma emptyWorld_facts:
  "someMint \<noteq> SOL_MINT"
  "freshCachedPrice emptyWorld someMint = None"
  "dexTokenPrice goodEnv someMint = Inr (Some 2)"
  "solPriceUsd goodEnv = 100" "tokenSupplyOf goodEnv someMint = 500"
  "txOutcome goodEnv = TxCommit" "publishOk goodEnv"
  "now emptyWorld = 1000000" "published emptyWorld = []"
  by (simp_all add: someMint_def SOL_MINT_def freshCachedPrice_def redis_get_def world_eval)

lemma getTokenPrice_emptyWorld:
  "fst (getTokenPrice goodEnv (snd (validateTokenMint goodEnv emptyWorld someMint)) someMint)
     = Inr examplePayload"
proof -
  have v: "isValid (fst (validateTokenMint goodEnv
                           (snd (validateTokenMint goodEnv emptyWorld someMint)) someMint))"
    by (simp add: validateTokenMint_idem goodEnv_valid_empty)
  have f: "freshCachedPrice (snd (validateTokenMint goodEnv emptyWorld someMint)) someMint = None"
    by (simp add: freshCachedPrice_validate emptyWorld_facts)
  show ?thesis
    using getTokenPrice_dex [OF v emptyWorld_facts(1) f emptyWorld_facts(3)]
    by (simp add: emptyWorld_facts examplePayload_def validateTokenMint_frame)
qed

lemma updateTokenPrice_emptyWorld_published:
  "published (snd (updateTokenPrice goodEnv emptyWorld someMint)) = [examplePayload]"
proof -
  obtain w2 where g:
    "getTokenPrice goodEnv (snd (validateTokenMint goodEnv emptyWorld someMint)) someMint
       = (Inr examplePayload, w2)"
    using getTokenPrice_emptyWorld
    by (cases "getTokenPrice goodEnv (snd (validateTokenMint goodEnv emptyWorld someMint)) someMint")
       simp
  have p: "published w2 = []"
    using getTokenPrice_tables(4)
      [of goodEnv "snd (validateTokenMint goodEnv emptyWorld someMint)" someMint]
    by (simp add: g validateTokenMint_frame emptyWorld_facts)
  show ?thesis
    by (simp add: updateTokenPrice_returns updateTokenPriceTry_valid [OF goodEnv_valid_empty] g
        prismaTransaction_def emptyWorld_facts commit_published p)
qed

text \<open>
  C2. Whatever the outside answers, one call of \<^verbatim>\<open>updateTokenPrice\<close> for a mint either
  publishes nothing, or publishes exactly one \<^verbatim>\<open>price_update\<close> whose payload is in the
  tables: the latest row of the mint carries the payload's numbers and a history row with
  the same mint and prices was appended. The two writes take effect together or not at
  all; the only other change of the tables is the purge of an invalid mint. (The clock
  of the model stands still during one call, so the time stamps are those of the call.)
\<close>

theorem updateTokenPrice_persist_then_publish:
  assumes w': "w' = snd (updateTokenPrice e w tm)"
  shows "(published w' = published w
          \<or> (\<exists>d. published w' = published w @ [d] \<and> tokenMint d = tm \<and> bothWritten d w w'))
       \<and> (neitherWritten w w' \<or> (\<exists>d. tokenMint d = tm \<and> bothWritten d w w') \<or> purged tm w w')"
proof (cases "isValid (fst (validateTokenMint e w tm))")
  case False
  have u: "w' = cleanupInvalidToken e (snd (validateTokenMint e w tm)) tm"
    by (simp add: w' updateTokenPrice_returns updateTokenPriceTry_invalid [OF False])
  have p: "published w' = published w"
    by (simp add: u cleanupInvalidToken_frame validateTokenMint_frame)
  have "neitherWritten w w' \<or> purged tm w w'"
    by (cases "dbAvailable e")
       (simp_all add: u neitherWritten_def purged_def cleanupInvalidToken_def Let_def
          purgeTables_def validateTokenMint_frame)
  with p show ?thesis by blast
next
  case True
  let ?w1 = "snd (validateTokenMint e w tm)"
  obtain r w2 where g: "getTokenPrice e ?w1 tm = (r, w2)"
    by (cases "getTokenPrice e ?w1 tm")
  have w2: "tokenPriceTable w2 = tokenPriceTable w" "priceHistoryTable w2 = priceHistoryTable w"
    "nextHistoryId w2 = nextHistoryId w" "now w2 = now w" "published w2 = published w"
    using getTokenPrice_tables [of e ?w1 tm] getTokenPrice_keeps(1) [of e ?w1 tm]
    by (simp_all add: g validateTokenMint_frame)
  show ?thesis
  proof (cases r)
    case (Inl err)
    then have "w' = w2"
      by (simp add: w' updateTokenPrice_returns updateTokenPriceTry_valid [OF True] g)
    then show ?thesis by (simp add: neitherWritten_def w2)
  next
    case (Inr d)
    have m: "tokenMint d = tm"
      using getTokenPrice_mint [of e ?w1 tm d] by (simp add: g Inr)
    show ?thesis
    proof (cases "txOutcome e = TxCommit")
      case True
      have eq: "w' = publishPriceUpdate e d (createPriceHistory d (upsertTokenPrice d w2))"
        using True
        by (simp add: w' updateTokenPrice_returns
            updateTokenPriceTry_valid [OF \<open>isValid (fst (validateTokenMint e w tm))\<close>] g Inr
            prismaTransaction_def)
      have b: "bothWritten d w w'"
        unfolding eq by (rule commit_bothWritten [OF w2(1-4)])
      have "published w' = published w @ [d] \<or> published w' = published w"
        by (simp add: eq commit_published w2)
      with b m show ?thesis by blast
    next
      case False
      then have "w' = w2"
        by (cases "txOutcome e")
           (simp_all add: w' updateTokenPrice_returns
              updateTokenPriceTry_valid [OF \<open>isValid (fst (validateTokenMint e w tm))\<close>] g Inr
              prismaTransaction_def)
      then show ?thesis by (simp add: neitherWritten_def w2)
    qed
  qed
qed

theorem updateTokenPrice_persist_then_publish_witness:
  "published (snd (updateTokenPrice goodEnv emptyWorld someMint)) = [examplePayload]
   \<and> bothWritten examplePayload emptyWorld (snd (updateTokenPrice goodEnv emptyWorld someMint))"
  using updateTokenPrice_persist_then_publish
          [of "snd (updateTokenPrice goodEnv emptyWorld someMint)" goodEnv emptyWorld someMint]
        updateTokenPrice_emptyWorld_published
  by (auto simp: emptyWorld_facts)

subsection \<open>The history query\<close>

lemma parseWindow_windowText: "parseWindow (Some (windowText win)) = Inr win"
  by (cases win) (simp_all add: parseWindow_def)

lemma findHistory_set:
  "set (findHistory table tm t) \<subseteq> {h \<in> set table. phTokenMint h = tm \<and> t \<le> phTimestamp h}"
  by (auto simp: findHistory_def dest: in_set_takeD)

lemma findHistory_sorted: "sorted (map phTimestamp (findHistory table tm t))"
  by (simp add: findHistory_def take_map [symmetric] sorted_wrt_take)

lemma findHistory_length: "length (findHistory table tm t) \<le> 1000"
  by (simp add: findHistory_def)

lemma findHistory_all:
  assumes "length (filter (\<lambda>h. phTokenMint h = tm \<and> t \<le> phTimestamp h) table) \<le> 1000"
  shows "mset (findHistory table tm t)
           = mset (filter (\<lambda>h. phTokenMint h = tm \<and> t \<le> phTimestamp h) table)"
  using assms by (simp add: findHistory_def)

lemma findHistory_earliest:
  assumes h: "h \<in> set table" "phTokenMint h = tm" "t \<le> phTimestamp h"
    and nh: "h \<notin> set (findHistory table tm t)"
    and r: "r \<in> set (findHistory table tm t)"
  shows "phTimestamp r \<le> phTimestamp h"
proof -
  let ?xs = "sort_key phTimestamp (filter (\<lambda>h. phTokenMint h = tm \<and> t \<le> phTimestamp h) table)"
  have s: "sorted (map phTimestamp (take 1000 ?xs @ drop 1000 ?xs))"
    by simp
  have "h \<in> set ?xs" using h by simp
  then have "h \<in> set (take 1000 ?xs) \<or> h \<in> set (drop 1000 ?xs)"
    by (metis append_take_drop_id set_append Un_iff)
  then have hd: "h \<in> set (drop 1000 ?xs)"
    using nh by (simp add: findHistory_def)
  have rt: "r \<in> set (take 1000 ?xs)"
    using r by (simp add: findHistory_def)
  from s have "\<forall>a\<in>set (take 1000 ?xs). \<forall>b\<in>set (drop 1000 ?xs). phTimestamp a \<le> phTimestamp b"
    unfolding map_append sorted_append by auto
  with rt hd show ?thesis by blast
qed

lemma windowMs_specWindowLength: "windowMs win = specWindowLength win"
  by (cases win) simp_all

lemma length_findHistory:
  "length (findHistory table tm t)
     = min 1000 (length (filter (\<lambda>h. phTokenMint h = tm \<and> t \<le> phTimestamp h) table))"
  by (simp add: findHistory_def min.commute)

text \<open>
  C6. For a mint and a window of \<open>1m\<close>, \<open>5m\<close> or \<open>1h\<close>, that is 60000, 300000 or 3600000
  milliseconds, with the database reachable, the history query answers 200 with the
  stored rows of the mint whose time stamp is at least \<open>now - window\<close>, sorted by ascending
  time stamp and cut after 1000. So every row returned is such a row, the rows are in
  ascending order, their number is the smaller of 1000 and the number of rows in the
  window; when at most 1000 stored rows lie in the window the answer holds exactly those,
  and when more do the cap keeps the earliest: every row of the window that is left out is
  no earlier than any row returned.
\<close>

theorem getTokenHistory_window:
  assumes "mint \<noteq> []" "dbAvailable e"
    and rows: "rows = take 1000 (sort_key phTimestamp
                        (filter (inWindow w mint win) (priceHistoryTable w)))"
  shows "getTokenHistory e w mint (Some (windowText win))
           = Json200 \<lparr> hbData = map toEntry rows, hbWindow = win, hbTotal = length rows \<rparr>
       \<and> windowMs W1m = 60000 \<and> windowMs W5m = 300000 \<and> windowMs W1h = 3600000
       \<and> set rows \<subseteq> {h \<in> set (priceHistoryTable w).
                        phTokenMint h = mint \<and> phTimestamp h \<ge> now w - specWindowLength win}
       \<and> sorted (map phTimestamp rows)
       \<and> length rows = min 1000 (length (filter (inWindow w mint win) (priceHistoryTable w)))
       \<and> (length (filter (inWindow w mint win) (priceHistoryTable w)) \<le> 1000
            \<longrightarrow> mset rows = mset (filter (inWindow w mint win) (priceHistoryTable w)))
       \<and> (\<forall>h \<in> set (priceHistoryTable w). inWindow w mint win h \<and> h \<notin> set rows
            \<longrightarrow> (\<forall>r \<in> set rows. phTimestamp r \<le> phTimestamp h))"
proof -
  have iw: "inWindow w mint win
              = (\<lambda>h. phTokenMint h = mint \<and> now w - windowMs win \<le> phTimestamp h)"
    by (simp add: inWindow_def fun_eq_iff windowMs_specWindowLength)
  have rows': "rows = findHistory (priceHistoryTable w) mint (now w - windowMs win)"
    unfolding rows iw by (simp add: findHistory_def)
  have 1: "getTokenHistory e w mint (Some (windowText win))
           = Json200 \<lparr> hbData = map toEntry rows, hbWindow = win, hbTotal = length rows \<rparr>"
    using assms(1,2) rows' by (simp add: getTokenHistory_def parseWindow_windowText Let_def)
  have 2: "set rows \<subseteq> {h \<in> set (priceHistoryTable w).
                        phTokenMint h = mint \<and> phTimestamp h \<ge> now w - specWindowLength win}"
    unfolding rows' windowMs_specWindowLength by (rule findHistory_set)
  have 3: "sorted (map phTimestamp rows)"
    unfolding rows' by (rule findHistory_sorted)
  have 4: "length rows = min 1000 (length (filter (inWindow w mint win) (priceHistoryTable w)))"
    unfolding rows' iw by (rule length_findHistory)
  have 5: "length (filter (inWindow w mint win) (priceHistoryTable w)) \<le> 1000
            \<longrightarrow> mset rows = mset (filter (inWindow w mint win) (priceHistoryTable w))"
    unfolding rows' iw using findHistory_all by blast
  have 6: "\<forall>h \<in> set (priceHistoryTable w). inWindow w mint win h \<and> h \<notin> set rows
            \<longrightarrow> (\<forall>r \<in> set rows. phTimestamp r \<le> phTimestamp h)"
    unfolding rows' iw using findHistory_earliest by blast
  from 1 2 3 4 5 6 show ?thesis by simp
qed

text \<open>
  The three windows on a table of five rows, at time 1000000: the row of the other mint
  is never returned, the rows come back in order of time and not of storage, and each
  window holds the rows of the shorter one and more.
\<close>

theorem getTokenHistory_window_witness:
  "getTokenHistory goodEnv historyWorld someMint (Some ''1m'')
     = Json200 \<lparr> hbData = [historyEntry 950000, historyEntry 990000],
                  hbWindow = W1m, hbTotal = 2 \<rparr>
   \<and> getTokenHistory goodEnv historyWorld someMint (Some ''5m'')
     = Json200 \<lparr> hbData = [historyEntry 880000, historyEntry 950000, historyEntry 990000],
                  hbWindow = W5m, hbTotal = 3 \<rparr>
   \<and> getTokenHistory goodEnv historyWorld someMint (Some ''1h'')
     = Json200 \<lparr> hbData = [historyEntry 100000, historyEntry 880000, historyEntry 950000,
                            historyEntry 990000],
                  hbWindow = W1h, hbTotal = 4 \<rparr>"
proof -
  have a: "someMint \<noteq> []" "dbAvailable goodEnv"
    by (simp_all add: someMint_def goodEnv_def)
  have n: "someMint \<noteq> SOL_MINT" "SOL_MINT \<noteq> someMint"
    by (simp_all add: someMint_def SOL_MINT_def)
  have r1: "[historyRow 2 someMint 950000, historyRow 1 someMint 990000]
              = take 1000 (sort_key phTimestamp
                  (filter (inWindow historyWorld someMint W1m) (priceHistoryTable historyWorld)))"
    by (simp add: inWindow_def historyWorld_def emptyWorld_def historyRow_def n)
  have r5: "[historyRow 4 someMint 880000, historyRow 2 someMint 950000,
             historyRow 1 someMint 990000]
              = take 1000 (sort_key phTimestamp
                  (filter (inWindow historyWorld someMint W5m) (priceHistoryTable historyWorld)))"
    by (simp add: inWindow_def historyWorld_def emptyWorld_def historyRow_def n)
  have rh: "[historyRow 5 someMint 100000, historyRow 4 someMint 880000,
             historyRow 2 someMint 950000, historyRow 1 someMint 990000]
              = take 1000 (sort_key phTimestamp
                  (filter (inWindow historyWorld someMint W1h) (priceHistoryTable historyWorld)))"
    by (simp add: inWindow_def historyWorld_def emptyWorld_def historyRow_def n)
  show ?thesis
    using getTokenHistory_window [OF a r1] getTokenHistory_window [OF a r5]
      getTokenHistory_window [OF a rh]
    by (simp add: toEntry_def historyRow_def historyEntry_def)
qed

subsection \<open>The limit of the top-holders query\<close>

lemma holdersKey_neq [simp]:
  "topHoldersKey a l \<noteq> validationKey b"
  "topHoldersKey a l \<noteq> ''token_info:'' @ b"
  by (simp_all add: validationKey_def topHoldersKey_def)

lemma length_slice0: "0 \<le> n \<Longrightarrow> length (slice0 xs n) \<le> nat n"
  by (simp add: slice0_def)

lemma getTopHolders_bound:
  assumes ok: "holdersCacheOk w" and l: "0 \<le> limit"
    and r: "fst (getTopHolders e w tm limit) = Inr hs"
  shows "length hs \<le> nat limit"
proof -
  let ?w1 = "snd (validateTokenMint e w tm)"
  have c: "redis_get (redis ?w1) (now ?w1) (topHoldersKey tm limit)
             = redis_get (redis w) (now w) (topHoldersKey tm limit)"
    by (simp add: redis_get_def validateTokenMint_redis validateTokenMint_frame)
  have cached: "\<And>xs. redis_get (redis w) (now w) (topHoldersKey tm limit) = Some (RHolders xs)
                  \<Longrightarrow> length xs \<le> nat limit"
    using ok l unfolding holdersCacheOk_def by blast
  show ?thesis
    using r l cached
    by (auto simp: getTopHolders_def fetchTopHolders_def split_beta c Let_def length_slice0
        split: if_splits option.splits rvalue.splits sum.splits prod.splits)
qed

lemma getTopHolders_valid:
  assumes "isValid (fst (validateTokenMint e w tm))"
  shows "\<exists>hs. fst (getTopHolders e w tm l) = Inr hs"
  using assms
  by (auto simp: getTopHolders_def split_beta split: option.splits rvalue.splits sum.splits
      prod.splits)

lemma getTokenHolders_accepts:
  assumes "mint \<noteq> []" "limitOf q \<le> 100" "isValid (fst (validateTokenMint e w mint))"
  shows "isJson200 (fst (getTokenHolders e w mint q))"
proof -
  obtain res w1 where g: "getTopHolders e w mint (limitOf q) = (res, w1)"
    by (cases "getTopHolders e w mint (limitOf q)")
  from getTopHolders_valid [OF assms(3), of "limitOf q"] obtain hs where "res = Inr hs"
    by (auto simp: g)
  then show ?thesis
    using assms(1,2) by (simp add: getTokenHolders_def g)
qed

lemmas parseInt_eval = limitOf_def parseInt_def parseUnsigned_def parseDigits_def
  isWhiteSpace_def isDigitIn_def digitValue_def digitsValue_def

lemma holdersCacheOk_emptyWorld: "holdersCacheOk emptyWorld"
  by (simp add: holdersCacheOk_def redis_get_def emptyWorld_def)

text \<open>
  What \<^verbatim>\<open>getTokenHolders\<close> does with its limit: the default is 10; a limit above 100 is
  answered with 400; and with a limit between 1 and 100 a 200 answer holds at most that
  many holders, given that the cache holds no longer list for the pair of mint and limit.
\<close>

lemma getTokenHolders_limit:
  "(q = None \<longrightarrow> limitOf q = 10)
   \<and> (mint \<noteq> [] \<and> limitOf q > 100
        \<longrightarrow> getTokenHolders e w mint q = (Status400 ''Limit cannot exceed 100'', w))
   \<and> (1 \<le> limitOf q \<and> limitOf q \<le> 100 \<and> holdersCacheOk w
        \<and> fst (getTokenHolders e w mint q) = Json200 body
        \<longrightarrow> length (hoData body) \<le> nat (limitOf q)
            \<and> hoTotal body = length (hoData body) \<and> hoLimit body = limitOf q)"
proof -
  have 1: "q = None \<longrightarrow> limitOf q = 10"
    by (simp add: limitOf_def)
  have 2: "mint \<noteq> [] \<and> limitOf q > 100
        \<longrightarrow> getTokenHolders e w mint q = (Status400 ''Limit cannot exceed 100'', w)"
    by (simp add: getTokenHolders_def)
  have 3: "length (hoData body) \<le> nat (limitOf q)
            \<and> hoTotal body = length (hoData body) \<and> hoLimit body = limitOf q"
    if a: "1 \<le> limitOf q" "limitOf q \<le> 100" "holdersCacheOk w"
      and b: "fst (getTokenHolders e w mint q) = Json200 body"
  proof -
    obtain res w1 where g: "getTopHolders e w mint (limitOf q) = (res, w1)"
      by (cases "getTopHolders e w mint (limitOf q)")
    from b a(2) obtain hs where hs: "res = Inr hs"
      "body = \<lparr> hoData = hs, hoTotal = length hs, hoLimit = limitOf q \<rparr>"
      by (cases res) (auto simp: getTokenHolders_def g split: if_splits)
    have "length hs \<le> nat (limitOf q)"
      using getTopHolders_bound [OF a(3), of "limitOf q" e mint hs] a(1) by (simp add: g hs)
    then show ?thesis by (simp add: hs)
  qed
  from 1 2 3 show ?thesis by blast
qed

lemma getTokenHolders_limit_example:
  "limitOf None = 10
   \<and> getTokenHolders goodEnv emptyWorld someMint (Some ''200'')
       = (Status400 ''Limit cannot exceed 100'', emptyWorld)
   \<and> (case fst (getTokenHolders goodEnv emptyWorld someMint (Some ''1'')) of
         Json200 b \<Rightarrow> length (hoData b) \<le> 1 \<and> hoLimit b = 1
       | Status400 msg \<Rightarrow> False)"
proof -
  have l: "limitOf (Some ''200'') = 200" "limitOf (Some ''1'') = 1" "someMint \<noteq> []"
    by (simp_all add: parseInt_eval someMint_def)
  have j: "isJson200 (fst (getTokenHolders goodEnv emptyWorld someMint (Some ''1'')))"
    by (rule getTokenHolders_accepts) (simp_all add: l goodEnv_valid_empty)
  then obtain b where b: "fst (getTokenHolders goodEnv emptyWorld someMint (Some ''1'')) = Json200 b"
    by (cases "fst (getTokenHolders goodEnv emptyWorld someMint (Some ''1''))") simp_all
  show ?thesis
    using l holdersCacheOk_emptyWorld b
      getTokenHolders_limit [of None someMint goodEnv emptyWorld b]
      getTokenHolders_limit [of "Some ''200''" someMint goodEnv emptyWorld b]
      getTokenHolders_limit [of "Some ''1''" someMint goodEnv emptyWorld b]
    by simp
qed

lemma getTokenInfo_valid:
  assumes "isValid (fst (validateTokenMint e w tm))"
  shows "\<exists>info. fst (getTokenInfo e w tm) = Inr info"
  using assms
  by (auto simp: getTokenInfo_def split_beta split: option.splits rvalue.splits sum.splits
      prod.splits)

lemma getTopHolders_fresh:
  assumes v: "isValid (fst (validateTokenMint e w tm))"
    and miss: "redis_get (redis w) (now w) (topHoldersKey tm l) = None"
    and accs: "largestAccounts e tm = Inr (Some accs)"
  shows "\<exists>hs. fst (getTopHolders e w tm l) = Inr hs \<and> length hs = length (slice0 accs l)"
proof -
  let ?w1 = "snd (validateTokenMint e w tm)"
  have c: "redis_get (redis ?w1) (now ?w1) (topHoldersKey tm l) = None"
    using miss by (simp add: redis_get_def validateTokenMint_redis validateTokenMint_frame)
  have "isValid (fst (validateTokenMint e ?w1 tm))"
    using v by (simp add: validateTokenMint_idem)
  from getTokenInfo_valid [OF this] obtain info w2 where i: "getTokenInfo e ?w1 tm = (Inr info, w2)"
    by (cases "getTokenInfo e ?w1 tm") auto
  show ?thesis
    using v by (simp add: getTopHolders_def split_beta c fetchTopHolders_def accs i Let_def)
qed

text \<open>
  C9, on the code. The handler reads the limit with \<^verbatim>\<open>parseInt(...) || 10\<close> and rejects
  only \<^verbatim>\<open>limit > 100\<close>; it does not use \<^verbatim>\<open>HoldersQuerySchema\<close>. A request with
  \<^verbatim>\<open>limit=0\<close> is served with the default 10, and a request with \<^verbatim>\<open>limit=-1\<close> is served with
  the limit \<open>-1\<close>, where \<^verbatim>\<open>slice(0, -1)\<close> drops the last of the two largest accounts:
  both are answered with 200, not 400.
\<close>

theorem getTokenHolders_accepts_low_limit:
  "parseInt ''0'' = Some 0
   \<and> limitOf (Some ''0'') = 10
   \<and> isJson200 (fst (getTokenHolders goodEnv emptyWorld someMint (Some ''0'')))
   \<and> parseInt ''-1'' = Some (- 1)
   \<and> limitOf (Some ''-1'') = - 1
   \<and> (case fst (getTokenHolders goodEnv emptyWorld someMint (Some ''-1'')) of
         Json200 b \<Rightarrow> hoLimit b = - 1 \<and> length (hoData b) = 1
       | Status400 msg \<Rightarrow> False)"
proof -
  have l: "parseInt ''0'' = Some 0" "limitOf (Some ''0'') = 10"
    "parseInt ''-1'' = Some (- 1)" "limitOf (Some ''-1'') = - 1" "someMint \<noteq> []"
    by (simp_all add: parseInt_eval someMint_def)
  have a: "isJson200 (fst (getTokenHolders goodEnv emptyWorld someMint (Some ''0'')))"
    by (rule getTokenHolders_accepts) (simp_all add: l goodEnv_valid_empty)
  have m: "redis_get (redis emptyWorld) (now emptyWorld) (topHoldersKey someMint (- 1)) = None"
    by (simp add: redis_get_def emptyWorld_def)
  have g: "largestAccounts goodEnv someMint
             = Inr (Some [(''holderA'', Some 100), (''holderB'', Some 50)])"
    by (simp add: goodEnv_def)
  from getTopHolders_fresh [OF goodEnv_valid_empty m g]
  obtain hs w1 where hs: "getTopHolders goodEnv emptyWorld someMint (- 1) = (Inr hs, w1)"
    "length hs = 1"
    by (cases "getTopHolders goodEnv emptyWorld someMint (- 1)") (auto simp: slice0_def)
  have b: "fst (getTokenHolders goodEnv emptyWorld someMint (Some ''-1''))
             = Json200 \<lparr> hoData = hs, hoTotal = length hs, hoLimit = - 1 \<rparr>"
    by (simp add: getTokenHolders_def l hs)
  from l a b hs(2) show ?thesis by simp
qed

subsection \<open>The repeatable jobs of the queue\<close>
























end
